theory Spec2Isabelle
  imports Complex_Main "HOL-Library.Multiset" "HOL-Library.List_Lexorder" "HOL-Library.Char_ord"
begin

section \<open>Errors and Python values\<close>

text \<open>
  Every exception the modelled code can raise is a value of \<open>error\<close>; a function that
  may raise returns \<open>error + 'a\<close> with \<open>Inl\<close> for the exception.  \<open>KeyError\<close> carries
  the missing key and \<open>ValueError\<close> its message, as in Python.
\<close>

datatype error =
    KeyError string
  | ValueError string
  | PermissionError
  | FileExistsError
  | FileNotFoundError
  | OSError
  | AttributeError
  | TypeError
  | IndexError
  | ImportError
  | KeyboardInterrupt

type_synonym path = string

section \<open>Strings and paths\<close>

text \<open>
  Python's \<^verbatim>\<open>needle in haystack\<close> on strings, \<^verbatim>\<open>sep.join(xs)\<close>, \<^verbatim>\<open>s.lower()\<close> (on ASCII
  letters) and \<^verbatim>\<open>s.replace(old, new)\<close> (left to right, non-overlapping; the program only
  calls it with a non-empty \<open>old\<close>, for an empty one the model returns \<open>s\<close>).
\<close>

fun starts_with :: "string \<Rightarrow> string \<Rightarrow> bool" where
  "starts_with [] s = True"
| "starts_with (c # cs) [] = False"
| "starts_with (c # cs) (d # ds) = (c = d \<and> starts_with cs ds)"

fun contains :: "string \<Rightarrow> string \<Rightarrow> bool" where
  "contains needle [] = (needle = [])"
| "contains needle (c # cs) = (starts_with needle (c # cs) \<or> contains needle cs)"

fun join :: "string \<Rightarrow> string list \<Rightarrow> string" where
  "join sep [] = []"
| "join sep [x] = x"
| "join sep (x # y # ys) = x @ sep @ join sep (y # ys)"

definition lower_char :: "char \<Rightarrow> char" where
  "lower_char c =
     (let n = (of_char c :: nat) in if 65 \<le> n \<and> n \<le> 90 then char_of (n + 32) else c)"

definition lower :: "string \<Rightarrow> string" where
  "lower s = map lower_char s"

function replace :: "string \<Rightarrow> string \<Rightarrow> string \<Rightarrow> string" where
  "replace old new s =
     (if old = [] \<or> s = [] then s
      else if starts_with old s then new @ replace old new (drop (length old) s)
      else hd s # replace old new (tl s))"
  by pat_completeness auto
termination
  by (relation "measure (\<lambda>(old, new, s). length s)") auto

declare replace.simps [simp del]

definition py_repr :: "string \<Rightarrow> string" where
  \<comment> \<open>\<open>repr(s)\<close> of a plain string (no quotes or escapes in it)\<close>
  "py_repr s = [CHR 0x27] @ s @ [CHR 0x27]"

text \<open>
  A \<open>pathlib.Path\<close> is its string.  \<open>p / q\<close> for a relative \<open>q\<close> appends a component,
  \<open>p.parent\<close> drops the last component, \<open>p.stem\<close> is the last component without its
  final suffix.
\<close>

definition pjoin :: "path \<Rightarrow> string \<Rightarrow> path" where
  "pjoin p q = p @ ''/'' @ q"

definition parent :: "path \<Rightarrow> path" where
  "parent p = rev (drop 1 (dropWhile (\<lambda>c. c \<noteq> CHR ''/'') (rev p)))"

definition basename :: "path \<Rightarrow> string" where
  "basename p = rev (takeWhile (\<lambda>c. c \<noteq> CHR ''/'') (rev p))"

definition stem :: "path \<Rightarrow> string" where
  "stem p =
     (let name = basename p;
          after = takeWhile (\<lambda>c. c \<noteq> CHR ''.'') (rev name);
          i = length name - length after - 1
      in if CHR ''.'' \<in> set name \<and> 0 < i \<and> after \<noteq> [] then take i name else name)"

section \<open>df-analyze.py: sort_df\<close>

text \<open>
  A \<open>pandas.DataFrame\<close> is its list of column labels and its rows, each row holding one
  cell per column.  \<open>df.sort_values(by=label, ascending=True)\<close> raises \<open>KeyError(label)\<close>
  when no column has that label and \<open>ValueError\<close> when several have; otherwise the rows
  come back ordered by that column.  pandas sorts with its default \<open>kind="quicksort"\<close>,
  which is not stable: the order it gives to rows with equal keys is its own.  The
  sorting routine is therefore a parameter \<open>quicksort\<close>, taking the index of the column
  and the rows; \<open>sorts_ascending\<close> says what every such routine guarantees.
\<close>

record 'c DataFrame =
  columns :: "string list"
  rows :: "'c list list"

type_synonym 'c sorter = "nat \<Rightarrow> 'c list list \<Rightarrow> 'c list list"

definition sorts_ascending :: "('c::linorder) sorter \<Rightarrow> bool" where
  "sorts_ascending quicksort =
     (\<forall>i rs. mset (quicksort i rs) = mset rs \<and> sorted (map (\<lambda>r. r ! i) (quicksort i rs)))"

definition stable_sorter :: "('c::linorder) sorter" where
  \<comment> \<open>one such routine: the stable sort by the column\<close>
  "stable_sorter i rs = sort_key (\<lambda>r. r ! i) rs"

definition sort_values :: "'c sorter \<Rightarrow> string \<Rightarrow> 'c DataFrame \<Rightarrow> error + 'c DataFrame" where
  "sort_values quicksort by_label df =
     (case filter (\<lambda>i. columns df ! i = by_label) [0..<length (columns df)] of
        [] \<Rightarrow> Inl (KeyError by_label)
      | [i] \<Rightarrow> Inr (df\<lparr>rows := quicksort i (rows df)\<rparr>)
      | _ \<Rightarrow> Inl (ValueError (''The column label '' @ py_repr by_label @ '' is not unique.'')))"

text \<open>
  The loop of \<open>sort_df\<close> and \<open>print_sorted\<close> over the lower-cased labels: the first label
  with \<^verbatim>\<open>("mae" in col) and ("sd" not in col)\<close>, or \<open>None\<close>.
\<close>

fun find_sort_col :: "string list \<Rightarrow> string option" where
  "find_sort_col [] = None"
| "find_sort_col (col # cols) =
     (if contains ''mae'' col \<and> \<not> contains ''sd'' col then Some col
      else find_sort_col cols)"

definition sort_df :: "'c sorter \<Rightarrow> 'c DataFrame \<Rightarrow> error + 'c DataFrame" where
  "sort_df quicksort df =
     (let cols = map lower (columns df) in
      case find_sort_col cols of
        None \<Rightarrow> Inr df
      | Some sort_col \<Rightarrow> sort_values quicksort sort_col df)"

section \<open>saving.py: get_hash\<close>

text \<open>
  A Python \<open>dict\<close> with string keys is an association list in insertion order whose
  keys are pairwise distinct.  \<open>dict.pop(k)\<close> without a default raises \<open>KeyError(k)\<close>
  when the key is absent.
\<close>

type_synonym 'v pydict = "(string \<times> 'v) list"

definition dict_keys :: "'v pydict \<Rightarrow> string list" where
  "dict_keys d = map fst d"

definition dict_pop :: "string \<Rightarrow> 'v pydict \<Rightarrow> error + 'v pydict" where
  "dict_pop k d =
     (if k \<in> set (dict_keys d) then Inr (filter (\<lambda>kv. fst kv \<noteq> k) d)
      else Inl (KeyError k))"

text \<open>The loop \<^verbatim>\<open>for ignore in ignores: to_hash.pop(ignore)\<close>.\<close>

fun pop_all :: "string list \<Rightarrow> 'v pydict \<Rightarrow> error + 'v pydict" where
  "pop_all [] to_hash = Inr to_hash"
| "pop_all (ignore # ignores) to_hash =
     (case dict_pop ignore to_hash of
        Inl e \<Rightarrow> Inl e
      | Inr to_hash' \<Rightarrow> pop_all ignores to_hash')"

text \<open>
  \<^verbatim>\<open>sorted(to_hash.items())\<close> compares the \<open>(key, value)\<close> tuples; the keys of a dict
  are distinct, so the comparison is decided by the key and the values are never
  compared: it is a sort by key.  The library pipeline
  \<^verbatim>\<open>md5(str(tuple(...)).encode()).hexdigest()\<close> is the parameter \<open>md5_str\<close>, a function of
  the sorted item list.
\<close>

definition ignores_list :: "string list option \<Rightarrow> string list" where
  \<comment> \<open>\<^verbatim>\<open>ignores = [] if ignores is None else ignores\<close>\<close>
  "ignores_list ignores = (case ignores of None \<Rightarrow> [] | Some l \<Rightarrow> l)"

definition get_hash ::
  "('v pydict \<Rightarrow> string) \<Rightarrow> 'v pydict \<Rightarrow> string list option \<Rightarrow> error + string" where
  "get_hash md5_str args ignores =
     (case pop_all (ignores_list ignores) args of
        Inl e \<Rightarrow> Inl e
      | Inr to_hash \<Rightarrow> Inr (md5_str (sort_key fst to_hash)))"

text \<open>
  cli.py, \<open>ProgramOptions.__init__\<close>: every multi-valued option is stored as
  \<^verbatim>\<open>tuple(sorted(set(xs)))\<close>.
\<close>

definition sorted_set :: "('a::linorder) list \<Rightarrow> 'a list" where
  "sorted_set xs = sort (remdups xs)"

subsection \<open>Example inputs for get_hash\<close>

definition ex_digest :: "string pydict \<Rightarrow> string" where
  "ex_digest items = concat (map (\<lambda>kv. fst kv @ ''='' @ snd kv @ '';'') items)"

definition ex_config1 :: "string pydict" where
  "ex_config1 = [(''mode'', ''classify''), (''n_feat'', ''10''), (''verbosity'', ''1'')]"


section \<open>Effects: the operating system, the trace and exceptions\<close>

text \<open>
  What the program does to its surroundings is recorded, in order, in a trace of events.
  What the surroundings answer (permissions, existing files, failing writes, the clock,
  the rendering of a table) is read from an environment \<open>env\<close> that the program cannot
  change.
\<close>

datatype warning =
    OutputDirsError
    \<comment> \<open>"Got error creating output directories: ... Defaulting to in-memory results."\<close>
  | NoWritePermissionTrying path path
    \<comment> \<open>"Do not have write permissions for {outdir}. Trying: {new}."\<close>
  | TemporaryDirectoryCreated path path
    \<comment> \<open>"Did not have write permissions for {outdir}. Created a temporary directory at {new} instead."\<close>
  | ExistingTemporaryData
    \<comment> \<open>"Found existing temporary data. ... Holding results in memory instead."\<close>
  | FallingBackToMemory error
    \<comment> \<open>"Could not create temporary directory. Falling back to storing results in memory. Error details: {e}"\<close>
  | FewTrials
    \<comment> \<open>"Without pruning, Optuna generally only shows clear superiority ..."\<close>
  | StepSelectionSlow
    \<comment> \<open>"Step-up and step-down feature selection can have very high time-complexity. ..."\<close>
  | StepDownIntractable
    \<comment> \<open>"Step-down feature selection in particular will usually be intractable ..."\<close>

datatype 'df event =
    Mkdir path
    \<comment> \<open>\<open>Path.mkdir(exist_ok=True, parents=True)\<close> or \<open>os.makedirs(.., exist_ok=True)\<close> returned\<close>
  | Mkdtemp path
    \<comment> \<open>\<open>tempfile.mkdtemp\<close> created this directory\<close>
  | Warn warning
  | Print string
    \<comment> \<open>a line written to standard output by \<open>print\<close>\<close>
  | PrintExc error
    \<comment> \<open>\<open>traceback.print_exc()\<close>, written to standard error\<close>
  | ToJson 'df path bool
    \<comment> \<open>\<open>df.to_json(path)\<close> was called; the flag tells whether it returned\<close>
  | ToCsv 'df path bool
    \<comment> \<open>\<open>df.to_csv(path)\<close> was called; the flag tells whether it returned\<close>

record 'df world =
  trace :: "'df event list"
  ticks :: nat \<comment> \<open>number of calls of \<open>time.ctime()\<close> so far\<close>

record 'df env =
  access_W_OK :: "path \<Rightarrow> bool" \<comment> \<open>\<open>os.access(p, os.W_OK)\<close>\<close>
  path_exists :: "path \<Rightarrow> bool"
  path_is_dir :: "path \<Rightarrow> bool"
  path_is_file :: "path \<Rightarrow> bool"
  path_resolve :: "path \<Rightarrow> path option" \<comment> \<open>\<open>Path(p).resolve()\<close>, \<open>None\<close> when it raises\<close>
  mkdir_fails :: "path \<Rightarrow> bool"
  home :: path \<comment> \<open>\<open>Path.home().resolve()\<close>\<close>
  cwd :: path \<comment> \<open>\<open>Path.cwd().resolve()\<close>\<close>
  mkdtemp_result :: "error + path" \<comment> \<open>\<open>mkdtemp(prefix="df_analyze_tmp")\<close>\<close>
  to_json_fails :: "'df \<Rightarrow> path \<Rightarrow> bool"
  to_csv_fails :: "'df \<Rightarrow> path \<Rightarrow> bool"
  to_markdown :: "'df \<Rightarrow> string \<Rightarrow> string option"
    \<comment> \<open>\<open>df.to_markdown(tablefmt="simple", floatfmt=..)\<close>: the rendered table, a string;
        \<open>None\<close> when the call raises (pandas needs the optional package \<open>tabulate\<close> for it)\<close>
  pd_concat :: "'df list \<Rightarrow> error + 'df"
    \<comment> \<open>\<open>pd.concat(results, axis=0, ignore_index=True)\<close>\<close>
  ctime :: "nat \<Rightarrow> string" \<comment> \<open>what the n-th call of \<open>time.ctime()\<close> returns\<close>

text \<open>
  A statement of the program maps the world to a result, an exception (\<open>Inl\<close>) or a
  value (\<open>Inr\<close>), and the world after it.  \<open>and_then\<close> is sequencing: an exception of the
  first statement skips the rest.  \<open>try_except\<close> is \<^verbatim>\<open>try: ... except Exception: ...\<close>,
  which lets \<open>KeyboardInterrupt\<close> pass, as it is no \<open>Exception\<close> in Python.
\<close>

type_synonym ('df, 'a) prog = "'df world \<Rightarrow> (error + 'a) \<times> 'df world"

definition return :: "'a \<Rightarrow> ('df, 'a) prog" where
  "return x w = (Inr x, w)"

definition raise :: "error \<Rightarrow> ('df, 'a) prog" where
  "raise e w = (Inl e, w)"

definition and_then :: "('df, 'a) prog \<Rightarrow> ('a \<Rightarrow> ('df, 'b) prog) \<Rightarrow> ('df, 'b) prog" where
  "and_then m f w = (case m w of (Inl e, w') \<Rightarrow> (Inl e, w') | (Inr x, w') \<Rightarrow> f x w')"

definition is_Exception :: "error \<Rightarrow> bool" where
  "is_Exception e = (e \<noteq> KeyboardInterrupt)"

definition try_except :: "('df, 'a) prog \<Rightarrow> (error \<Rightarrow> ('df, 'a) prog) \<Rightarrow> ('df, 'a) prog" where
  "try_except m handler w =
     (case m w of
        (Inl e, w') \<Rightarrow> if is_Exception e then handler e w' else (Inl e, w')
      | (Inr x, w') \<Rightarrow> (Inr x, w'))"

definition emit :: "'df event \<Rightarrow> ('df, unit) prog" where
  "emit ev w = (Inr (), w\<lparr>trace := trace w @ [ev]\<rparr>)"

definition lift :: "error + 'a \<Rightarrow> ('df, 'a) prog" where
  \<comment> \<open>a call that changes nothing outside: its value or its exception\<close>
  "lift r w = (r, w)"

definition discard :: "('df, 'a) prog \<Rightarrow> ('df, unit) prog" where
  \<comment> \<open>an expression statement: the call is made and its value dropped\<close>
  "discard m = and_then m (\<lambda>_. return ())"

definition warn :: "warning \<Rightarrow> ('df, unit) prog" where
  "warn msg = emit (Warn msg)"

definition print :: "string \<Rightarrow> ('df, unit) prog" where
  "print line = emit (Print line)"

definition print_exc :: "error \<Rightarrow> ('df, unit) prog" where
  "print_exc e = emit (PrintExc e)"

definition mkdir :: "'df env \<Rightarrow> path \<Rightarrow> ('df, unit) prog" where
  "mkdir os p = (if mkdir_fails os p then raise OSError else emit (Mkdir p))"

definition mkdtemp :: "'df env \<Rightarrow> ('df, path) prog" where
  "mkdtemp os =
     (case mkdtemp_result os of
        Inl e \<Rightarrow> raise e
      | Inr raw \<Rightarrow> and_then (emit (Mkdtemp raw)) (\<lambda>_. return raw))"

definition to_json :: "'df env \<Rightarrow> 'df \<Rightarrow> path \<Rightarrow> ('df, unit) prog" where
  "to_json os df p =
     (if to_json_fails os df p then and_then (emit (ToJson df p False)) (\<lambda>_. raise OSError)
      else emit (ToJson df p True))"

definition to_csv :: "'df env \<Rightarrow> 'df \<Rightarrow> path \<Rightarrow> ('df, unit) prog" where
  "to_csv os df p =
     (if to_csv_fails os df p then and_then (emit (ToCsv df p False)) (\<lambda>_. raise OSError)
      else emit (ToCsv df p True))"

definition render :: "'df env \<Rightarrow> 'df \<Rightarrow> string \<Rightarrow> ('df, string) prog" where
  \<comment> \<open>\<open>df.to_markdown(tablefmt="simple", floatfmt=fmt)\<close>\<close>
  "render os df fmt =
     (case to_markdown os df fmt of None \<Rightarrow> raise ImportError | Some table \<Rightarrow> return table)"

definition now :: "'df env \<Rightarrow> ('df, string) prog" where
  \<comment> \<open>\<open>time.ctime()\<close>\<close>
  "now os w = (Inr (ctime os (ticks w)), w\<lparr>ticks := Suc (ticks w)\<rparr>)"

section \<open>saving.py: ProgramDirs\<close>

datatype FileType = Interim | Final | Feature | Params | Univariate

record ProgramDirs =
  root :: "path option"
  joblib_cache :: "path option"
  inspection :: "path option"
  features :: "path option"
  associations :: "path option"
  predictions :: "path option"
  selection :: "path option"
  tuning :: "path option"
  results :: "path option"
  needs_clean :: bool

definition ProgramDirs_default :: ProgramDirs where
  \<comment> \<open>\<open>ProgramDirs()\<close>: the defaults of the dataclass\<close>
  "ProgramDirs_default =
     \<lparr>root = None, joblib_cache = None, inspection = None, features = None,
      associations = None, predictions = None, selection = None, tuning = None,
      results = None, needs_clean = False\<rparr>"

text \<open>
  The values an attribute of a \<open>ProgramDirs\<close> object can hold, and the object's
  \<open>__dict__\<close>: the attribute names with their values, in the order of the dataclass's
  fields.  Iterating over a \<open>dict\<close> yields its keys.
\<close>

datatype pyobj = PyNone | PyBool bool | PyStr string | PyPath path

definition opt_path :: "path option \<Rightarrow> pyobj" where
  "opt_path p = (case p of None \<Rightarrow> PyNone | Some q \<Rightarrow> PyPath q)"

definition ProgramDirs_dict :: "ProgramDirs \<Rightarrow> (string \<times> pyobj) list" where
  "ProgramDirs_dict d =
     [(''root'', opt_path (root d)),
      (''joblib_cache'', opt_path (joblib_cache d)),
      (''inspection'', opt_path (inspection d)),
      (''features'', opt_path (features d)),
      (''associations'', opt_path (associations d)),
      (''predictions'', opt_path (predictions d)),
      (''selection'', opt_path (selection d)),
      (''tuning'', opt_path (tuning d)),
      (''results'', opt_path (results d)),
      (''needs_clean'', PyBool (needs_clean d))]"

definition dict_iter :: "(string \<times> pyobj) list \<Rightarrow> pyobj list" where
  \<comment> \<open>\<^verbatim>\<open>for x in d\<close>: the keys of the dict\<close>
  "dict_iter d = map (\<lambda>kv. PyStr (fst kv)) d"

definition JOBLIB :: string where
  "JOBLIB = ''__JOBLIB_CACHE__''"

text \<open>
  \<open>configure_root\<close>.  The two handlers of the inner \<^verbatim>\<open>try\<close> return
  \<open>(None, needs_clean)\<close> with the value \<open>needs_clean\<close> has when the exception arrives:
  \<open>False\<close> when \<open>mkdtemp\<close> raised, \<open>True\<close> afterwards.  The whole body is inside the
  outer \<^verbatim>\<open>try: ... except Exception\<close>, which warns and returns \<open>(None, False)\<close>.
\<close>

definition memory_fallback :: "bool \<Rightarrow> error \<Rightarrow> ('df, path option \<times> bool) prog" where
  "memory_fallback needs_clean_now e =
     (if e = FileExistsError then
        and_then (warn ExistingTemporaryData) (\<lambda>_. return (None, needs_clean_now))
      else
        and_then (warn (FallingBackToMemory e)) (\<lambda>_. return (None, needs_clean_now)))"

definition configure_root :: "'df env \<Rightarrow> path option \<Rightarrow> ('df, path option \<times> bool) prog" where
  "configure_root os root_arg =
     try_except
       (if (case root_arg of None \<Rightarrow> False | Some r \<Rightarrow> \<not> access_W_OK os r)
        then raise PermissionError
        else
          (let needs_clean0 = False;
               outdir = (case root_arg of
                           Some r \<Rightarrow> r
                         | None \<Rightarrow> pjoin (home os) ''df-analyze-outputs'')
           in
             if \<not> access_W_OK os outdir then
               (let new = pjoin (cwd os) ''df-analyze-outputs'' in
                and_then (warn (NoWritePermissionTrying outdir new)) (\<lambda>_.
                  if \<not> access_W_OK os new then
                    try_except
                      (and_then (mkdtemp os) (\<lambda>raw.
                         try_except
                           (and_then (warn (TemporaryDirectoryCreated new raw)) (\<lambda>_.
                            and_then (mkdir os raw) (\<lambda>_.
                            return (Some raw, True))))
                           (memory_fallback True)))
                      (memory_fallback needs_clean0)
                  else
                    and_then (mkdir os new) (\<lambda>_. return (Some new, needs_clean0))))
             else
               and_then (mkdir os outdir) (\<lambda>_. return (Some outdir, needs_clean0))))
       (\<lambda>e. and_then (warn (FallingBackToMemory e)) (\<lambda>_. return (None, False)))"

text \<open>
  \<open>ProgramDirs.new\<close>.  The loop \<^verbatim>\<open>for path in new.__dict__\<close> runs over what iterating
  the \<open>__dict__\<close> yields; \<open>isinstance(path, Path)\<close> holds for a \<open>PyPath\<close> only.  An
  exception of \<open>mkdir\<close> is caught inside the loop and returns \<open>ProgramDirs(root=None)\<close>
  from the function.
\<close>

fun mkdir_loop :: "'df env \<Rightarrow> pyobj list \<Rightarrow> ProgramDirs \<Rightarrow> ('df, ProgramDirs) prog" where
  "mkdir_loop os [] new = return new"
| "mkdir_loop os (p # rest) new =
     (case p of
        PyPath q \<Rightarrow>
          if contains ''JOBLIB'' q then mkdir_loop os rest new
          else
            and_then
              (try_except
                 (and_then (mkdir os q) (\<lambda>_. return None))
                 (\<lambda>e. and_then (warn OutputDirsError) (\<lambda>_.
                        return (Some (ProgramDirs_default\<lparr>root := None\<rparr>)))))
              (\<lambda>returned. case returned of
                             Some d \<Rightarrow> return d
                           | None \<Rightarrow> mkdir_loop os rest new)
      | _ \<Rightarrow> mkdir_loop os rest new)"

definition ProgramDirs_new :: "'df env \<Rightarrow> path option \<Rightarrow> ('df, ProgramDirs) prog" where
  "ProgramDirs_new os root_arg =
     and_then (configure_root os root_arg) (\<lambda>(root', needs_clean').
       case root' of
         None \<Rightarrow> return ProgramDirs_default
       | Some r \<Rightarrow>
           (let new =
              \<lparr>root = Some r,
               joblib_cache = Some (pjoin r JOBLIB),
               inspection = Some (pjoin r ''inspection''),
               features = Some (pjoin r ''features''),
               associations = Some (pjoin r ''features/associations''),
               predictions = Some (pjoin r ''features/predictions''),
               selection = Some (pjoin r ''selection''),
               tuning = Some (pjoin r ''tuning''),
               results = Some (pjoin r ''results''),
               needs_clean = needs_clean'\<rparr>
            in mkdir_loop os (dict_iter (ProgramDirs_dict new)) new))"

subsection \<open>Example surroundings\<close>

text \<open>
  A machine on which everything is writable and nothing fails, the same machine with an
  output directory that is not writable, and the same machine on which no directory
  below \<open>/data/out\<close> can be created.
\<close>

definition w0 :: "rat DataFrame world" where
  "w0 = \<lparr>trace = [], ticks = 0\<rparr>"

definition ex_os :: "rat DataFrame env" where
  "ex_os =
     \<lparr>access_W_OK = (\<lambda>p. True),
      path_exists = (\<lambda>p. p = ''/data/in.csv''),
      path_is_dir = (\<lambda>p. False),
      path_is_file = (\<lambda>p. p = ''/data/in.csv''),
      path_resolve = (\<lambda>p. Some p),
      mkdir_fails = (\<lambda>p. False),
      home = ''/home/user'',
      cwd = ''/work'',
      mkdtemp_result = Inr ''/tmp/df_analyze_tmp0'',
      to_json_fails = (\<lambda>df p. False),
      to_csv_fails = (\<lambda>df p. False),
      to_markdown = (\<lambda>df fmt. Some ''<table>''),
      pd_concat = (\<lambda>dfs. Inr \<lparr>columns = concat (map columns (take 1 dfs)),
                                 rows = concat (map rows dfs)\<rparr>),
      ctime = (\<lambda>n. ''Tue Nov  3 22:47:0'' @ [char_of (48 + n)] @ '' 2026'')\<rparr>"

definition ex_os_readonly :: "rat DataFrame env" where
  "ex_os_readonly = ex_os\<lparr>access_W_OK := (\<lambda>p. p \<noteq> ''/data/out'')\<rparr>"

definition ex_os_no_subdirs :: "rat DataFrame env" where
  "ex_os_no_subdirs = ex_os\<lparr>mkdir_fails := (\<lambda>p. p \<noteq> ''/data/out'')\<rparr>"

definition ex_dirs :: ProgramDirs where
  "ex_dirs =
     \<lparr>root = Some ''/data/out'',
      joblib_cache = Some ''/data/out/__JOBLIB_CACHE__'',
      inspection = Some ''/data/out/inspection'',
      features = Some ''/data/out/features'',
      associations = Some ''/data/out/features/associations'',
      predictions = Some ''/data/out/features/predictions'',
      selection = Some ''/data/out/selection'',
      tuning = Some ''/data/out/tuning'',
      results = Some ''/data/out/results'',
      needs_clean = False\<rparr>"

section \<open>saving.py: try_save\<close>

text \<open>
  \<open>try_save\<close> reads the attributes \<open>interim_results\<close>, \<open>final_results\<close> and
  \<open>feature_selection\<close> of its \<open>ProgramDirs\<close> argument.  The dataclass in saving.py
  declares none of them and its base class \<open>Debug\<close> (module \<open>src.utils\<close>) is not among the
  sources, so what such a lookup gives is a parameter \<open>attrs\<close>: no such attribute
  (\<open>AttributeError\<close>), \<open>None\<close>, or a path.  \<open>None / "name"\<close> raises \<open>TypeError\<close>.

  The annotation \<open>file_type: FileType\<close> is not enforced by Python: the argument is a
  member of the enum or some other object.
\<close>

datatype file_type_value = EnumMember FileType | NonMember

datatype attr_value = NoAttribute | AttrNone | AttrPath path

record dir_attrs =
  attr_interim_results :: "ProgramDirs \<Rightarrow> attr_value"
  attr_final_results :: "ProgramDirs \<Rightarrow> attr_value"
  attr_feature_selection :: "ProgramDirs \<Rightarrow> attr_value"

definition declared_attrs :: dir_attrs where
  \<comment> \<open>the lookups on an object with the fields of the dataclass in saving.py and no more\<close>
  "declared_attrs =
     \<lparr>attr_interim_results = (\<lambda>d. NoAttribute),
      attr_final_results = (\<lambda>d. NoAttribute),
      attr_feature_selection = (\<lambda>d. NoAttribute)\<rparr>"

definition getattr :: "attr_value \<Rightarrow> ('df, path option) prog" where
  "getattr v =
     (case v of
        NoAttribute \<Rightarrow> raise AttributeError
      | AttrNone \<Rightarrow> return None
      | AttrPath p \<Rightarrow> return (Some p))"

definition truediv :: "path option \<Rightarrow> string \<Rightarrow> ('df, path) prog" where
  "truediv p q = (case p of None \<Rightarrow> raise TypeError | Some d \<Rightarrow> return (pjoin d q))"

definition selection_dirname :: "string option \<Rightarrow> string list \<Rightarrow> string" where
  \<comment> \<open>the name \<^verbatim>\<open>f"{selection}{clean}"\<close> that the Feature and Params branches both compute\<close>
  "selection_dirname sel cleaning =
     (let sel' = (case sel of
                    None \<Rightarrow> ''no-selection''
                  | Some s \<Rightarrow> if s = ''none'' then ''no-selection'' else s @ ''-selection'');
          clean = (if length cleaning > 0 then ''_cleaning='' @ join ''-'' cleaning else '''')
      in sel' @ clean)"

definition invalid_file_type :: error where
  "invalid_file_type = ValueError ''Invalid FileType for manual saving''"

text \<open>
  The first part of \<open>try_save\<close>, the chain of \<^verbatim>\<open>if file_type is ...\<close> that gives \<open>outdir\<close>
  and \<open>desc\<close> or raises \<open>ValueError\<close>.
\<close>

definition save_location ::
  "dir_attrs \<Rightarrow> ProgramDirs \<Rightarrow> file_type_value \<Rightarrow> string option \<Rightarrow> string list \<Rightarrow>
     ('df, path option \<times> string) prog" where
  "save_location attrs dirs file_type sel cleaning =
     (if file_type = EnumMember Interim then
        and_then (getattr (attr_interim_results attrs dirs)) (\<lambda>outdir.
        return (outdir, ''interim results''))
      else if file_type = EnumMember Final then
        and_then (getattr (attr_final_results attrs dirs)) (\<lambda>outdir.
        return (outdir, ''final results for all options''))
      else if file_type = EnumMember Feature then
        and_then (getattr (attr_feature_selection attrs dirs)) (\<lambda>d.
        and_then (truediv d (selection_dirname sel cleaning)) (\<lambda>outdir.
        return (Some outdir, ''selected/cleaned features'')))
      else if file_type = EnumMember Params then
        and_then (getattr (attr_feature_selection attrs dirs)) (\<lambda>d.
        and_then (truediv d (selection_dirname sel cleaning)) (\<lambda>outdir.
        return (Some outdir, ''selected/cleaned features'')))
      else raise invalid_file_type)"

text \<open>
  The last part of \<open>try_save\<close> (lines 201 to 214), the two \<^verbatim>\<open>try\<close> blocks that write
  the table to \<open>json\<close> and to \<open>csv\<close>.  In each handler \<open>df.to_markdown(...)\<close> is an
  expression statement: it is called, outside any \<^verbatim>\<open>try\<close>, and its value is dropped.
\<close>

definition try_save_writes :: "'df env \<Rightarrow> string \<Rightarrow> 'df \<Rightarrow> path \<Rightarrow> path \<Rightarrow> ('df, unit) prog" where
  "try_save_writes os desc df json csv =
     and_then
       (try_except
          (and_then (to_json os df json) (\<lambda>_.
           print (''Saved '' @ desc @ '' to '' @ json)))
          (\<lambda>e. and_then (print_exc e) (\<lambda>_.
                and_then (print (''Failed to save following results to '' @ json)) (\<lambda>_.
                discard (render os df ''0.5f''))))) (\<lambda>_.
     try_except
       (and_then (to_csv os df csv) (\<lambda>_.
        print (''Saved '' @ desc @ '' to '' @ csv)))
       (\<lambda>e. and_then (print_exc e) (\<lambda>_.
             and_then (print (''Failed to save '' @ desc @ '' results to '' @ csv @ '':'')) (\<lambda>_.
             discard (render os df ''0.5f'')))))"

definition try_save ::
  "dir_attrs \<Rightarrow> 'df env \<Rightarrow> ProgramDirs \<Rightarrow> 'df \<Rightarrow> string \<Rightarrow> file_type_value \<Rightarrow>
     string option \<Rightarrow> string list \<Rightarrow> ('df, unit) prog" where
  "try_save attrs os dirs df file_stem file_type sel cleaning =
     and_then (save_location attrs dirs file_type sel cleaning) (\<lambda>(outdir, desc).
     and_then (truediv outdir (''json/'' @ file_stem @ ''.json'')) (\<lambda>json.
     and_then (truediv outdir (''csv/'' @ file_stem @ ''.csv'')) (\<lambda>csv.
     and_then (mkdir os (parent json)) (\<lambda>_.
     and_then (mkdir os (parent csv)) (\<lambda>_.
     try_save_writes os desc df json csv)))))"

section \<open>cli.py: ProgramOptions\<close>

datatype Verbosity = ERROR | INFO | DEBUG

record CleaningOptions =
  c_datapath :: path
  c_target :: string
  c_feat_clean :: "string list"
  c_drop_nan :: string

record SelectionOptions =
  s_cleaning_options :: CleaningOptions
  s_mode :: string
  s_classifiers :: "string list"
  s_regressors :: "string list"
  s_feat_select :: "string list"
  s_n_feat :: int

text \<open>
  The attributes of a \<open>ProgramOptions\<close> object.  Sizes (\<open>Union[float, int]\<close>) are rational
  numbers.  \<open>outdir\<close> is annotated \<open>Path\<close>, but \<open>save_interim_result\<close> tests it for
  \<open>None\<close>, so it is optional here.
\<close>

record ProgramOptions =
  cleaning_options :: CleaningOptions
  selection_options :: SelectionOptions
  datapath :: path
  target :: string
  drop_nan :: string
  feat_clean :: "string list"
  feat_select :: "string list"
  n_feat :: int
  mode :: string
  classifiers :: "string list"
  regressors :: "string list"
  htune :: bool
  htune_val :: string
  htune_val_size :: rat
  htune_trials :: int
  test_val :: string
  test_val_sizes :: "rat list"
  outdir :: "path option"
  program_dirs :: ProgramDirs
  is_spreadsheet :: bool
  verbosity :: Verbosity

text \<open>The arguments of \<open>ProgramOptions.__init__\<close>.\<close>

datatype sizes_arg = OneSize rat | ManySizes "rat list"

record init_args =
  arg_datapath :: path
  arg_target :: string
  arg_drop_nan :: string
  arg_feat_clean :: "string list"
  arg_feat_select :: "string list"
  arg_n_feat :: int
  arg_mode :: string
  arg_classifiers :: "string list"
  arg_regressors :: "string list"
  arg_htune :: bool
  arg_htune_val :: string
  arg_htune_val_size :: rat
  arg_htune_trials :: int
  arg_test_val :: string
  arg_test_val_sizes :: sizes_arg
  arg_outdir :: "path option"
  arg_is_spreadsheet :: bool
  arg_verbosity :: Verbosity

definition resolved_path :: "'df env \<Rightarrow> path \<Rightarrow> ('df, path) prog" where
  "resolved_path os p =
     (case path_resolve os p of
        None \<Rightarrow> raise (ValueError ''Could not resolve path to valid path.'')
      | Some q \<Rightarrow> return q)"

definition validate_datapath :: "'df env \<Rightarrow> path \<Rightarrow> ('df, path) prog" where
  "validate_datapath os df_path =
     and_then (resolved_path os df_path) (\<lambda>p.
       if \<not> path_exists os p then raise FileNotFoundError
       else if \<not> path_is_file os p then raise FileNotFoundError
       else (case path_resolve os p of None \<Rightarrow> raise OSError | Some q \<Rightarrow> return q))"

definition ensure_outdir :: "'df env \<Rightarrow> path \<Rightarrow> path option \<Rightarrow> ('df, path) prog" where
  "ensure_outdir os dp outdir_arg =
     (let out = (case outdir_arg of
                   None \<Rightarrow> pjoin (parent dp) (''df-analyze-results__'' @ stem dp)
                 | Some d \<Rightarrow> d)
      in
        if path_exists os out then
          (if \<not> path_is_dir os out then raise FileExistsError else return out)
        else and_then (mkdir os out) (\<lambda>_. return out))"

definition spam_warnings :: "ProgramOptions \<Rightarrow> ('df, unit) prog" where
  "spam_warnings self =
     (if verbosity self = ERROR then return ()
      else
        and_then (if htune_trials self < 100 then warn FewTrials else return ()) (\<lambda>_.
        and_then (if ''step-up'' \<in> set (feat_select self) \<or> ''step-down'' \<in> set (feat_select self)
                  then warn StepSelectionSlow else return ()) (\<lambda>_.
        and_then (if ''step-down'' \<in> set (feat_select self)
                  then warn StepDownIntractable else return ()) (\<lambda>_.
        print ''To silence these warnings, use `--verbosity=0`.''))))"

definition regress_selection_error :: "string list \<Rightarrow> error" where
  "regress_selection_error fs =
     ValueError (''Feature selection with Cohen's d or AUC values is not supported '' @
                 ''for regression tasks. Do not pass arguments `d` or `auc` to '' @
                 ''`--feat-select` CLI option. [Got arguments: '' @ join '' '' fs @ '']'')"

text \<open>
  \<open>ProgramOptions.__init__\<close>, in the order of its statements.  \<open>setup_io\<close> is imported
  from \<open>src.saving\<close> but saving.py does not define it; it is a parameter, a statement
  that takes the output directory and gives the \<open>ProgramDirs\<close>.
\<close>

definition ProgramOptions_init ::
  "'df env \<Rightarrow> (path \<Rightarrow> ('df, ProgramDirs) prog) \<Rightarrow> init_args \<Rightarrow> ('df, ProgramOptions) prog" where
  "ProgramOptions_init os setup_io a =
     and_then (validate_datapath os (arg_datapath a)) (\<lambda>datapath'.
     and_then (ensure_outdir os datapath' (arg_outdir a)) (\<lambda>outdir'.
     and_then (setup_io outdir') (\<lambda>program_dirs'.
       (let cleaning_options' =
              \<lparr>c_datapath = datapath', c_target = arg_target a,
               c_feat_clean = sorted_set (arg_feat_clean a), c_drop_nan = arg_drop_nan a\<rparr>;
            selection_options' =
              \<lparr>s_cleaning_options = cleaning_options', s_mode = arg_mode a,
               s_classifiers = sorted_set (arg_classifiers a),
               s_regressors = sorted_set (arg_regressors a),
               s_feat_select = sorted_set (arg_feat_select a), s_n_feat = arg_n_feat a\<rparr>;
            self =
              \<lparr>cleaning_options = cleaning_options',
               selection_options = selection_options',
               datapath = datapath',
               target = arg_target a,
               drop_nan = arg_drop_nan a,
               feat_clean = sorted_set (arg_feat_clean a),
               feat_select = sorted_set (arg_feat_select a),
               n_feat = arg_n_feat a,
               mode = arg_mode a,
               classifiers = sorted_set (arg_classifiers a),
               regressors = sorted_set (arg_regressors a),
               htune = arg_htune a,
               htune_val = arg_htune_val a,
               htune_val_size = arg_htune_val_size a,
               htune_trials = arg_htune_trials a,
               test_val = arg_test_val a,
               test_val_sizes = (case arg_test_val_sizes a of
                                   OneSize x \<Rightarrow> [x]
                                 | ManySizes xs \<Rightarrow> sorted_set xs),
               outdir = Some outdir',
               program_dirs = program_dirs',
               is_spreadsheet = arg_is_spreadsheet a,
               verbosity = arg_verbosity a\<rparr>
        in
          and_then
            (if mode self = ''regress'' \<and>
                (''d'' \<in> set (feat_select self) \<or> ''auc'' \<in> set (feat_select self))
             then raise (regress_selection_error (feat_select self))
             else return ()) (\<lambda>_.
          and_then (spam_warnings self) (\<lambda>_.
          return self))))))"

section \<open>df-analyze.py\<close>

record LoopArgs =
  options :: ProgramOptions
  estimator :: string
  feature_selection :: "string option"
  loop_verbosity :: int

text \<open>The \<open>try_save\<close> of df-analyze.py (the run loop calls this one).\<close>

definition df_analyze_try_save :: "'df env \<Rightarrow> 'df \<Rightarrow> path \<Rightarrow> string \<Rightarrow> ('df, unit) prog" where
  "df_analyze_try_save os df out file_info =
     (let json = pjoin out (file_info @ ''.json'');
          csv = pjoin out (file_info @ ''.csv'')
      in
        and_then
          (try_except
             (and_then (to_json os df json) (\<lambda>_.
              print (''Saved interim result to '' @ json)))
             (\<lambda>e. and_then (print_exc e) (\<lambda>_.
                   and_then (print (''Failed to save following results to '' @ json)) (\<lambda>_.
                   discard (render os df ''0.5f'')))))
          (\<lambda>_.
        try_except
          (and_then (to_csv os df csv) (\<lambda>_.
           print (''Saved interim result to '' @ csv)))
          (\<lambda>e. and_then (print_exc e) (\<lambda>_.
                and_then (print (''Failed to save following results to '' @ csv)) (\<lambda>_.
                discard (render os df ''0.5f''))))))"

definition stamp :: "string \<Rightarrow> string" where
  \<comment> \<open>\<^verbatim>\<open>t.replace(":", "-").replace("  ", " ").replace(" ", "_")\<close>\<close>
  "stamp t = replace '' '' ''_'' (replace ''  '' '' '' (replace '':'' ''-'' t))"

definition timestamp :: "'df env \<Rightarrow> ('df, string) prog" where
  \<comment> \<open>\<^verbatim>\<open>ctime().replace(":", "-").replace("  ", " ").replace(" ", "_")\<close>\<close>
  "timestamp os = and_then (now os) (\<lambda>t. return (stamp t))"

definition interim_file_info :: "LoopArgs \<Rightarrow> string \<Rightarrow> string" where
  \<comment> \<open>\<^verbatim>\<open>f"results__{estimator}{'_step-up' if step else ''}__{timestamp}"\<close>\<close>
  "interim_file_info args ts =
     (let step = (Some ''step-up'' = feature_selection args) in
      ''results__'' @ estimator args @ (if step then ''_step-up'' else '''') @ ''__'' @ ts)"

definition save_interim_result :: "'df env \<Rightarrow> LoopArgs \<Rightarrow> 'df \<Rightarrow> ('df, unit) prog" where
  "save_interim_result os args result =
     (case outdir (options args) of
        None \<Rightarrow> return ()
      | Some out \<Rightarrow>
          and_then (timestamp os) (\<lambda>ts.
          df_analyze_try_save os result out (interim_file_info args ts)))"

definition print_sorted ::
  "'c DataFrame env \<Rightarrow> 'c sorter \<Rightarrow> 'c DataFrame \<Rightarrow> ('c DataFrame, unit) prog" where
  "print_sorted os quicksort df =
     (let cols = map lower (columns df) in
      case find_sort_col cols of
        None \<Rightarrow> and_then (render os df ''0.3f'') print
      | Some sort_col \<Rightarrow>
          and_then (lift (sort_values quicksort sort_col df)) (\<lambda>sorted_df.
          and_then (render os sorted_df ''0.3f'') print))"

text \<open>
  \<open>str(estimators)\<close> for a list or a tuple of plain strings (no quotes or escapes in
  them), as \<open>run_analysis\<close> uses it for the name of the final file.
\<close>

datatype estimators = PyList "string list" | PyTuple "string list"

definition py_str :: "estimators \<Rightarrow> string" where
  "py_str es =
     (case es of
        PyList xs \<Rightarrow> ''['' @ join '', '' (map py_repr xs) @ '']''
      | PyTuple xs \<Rightarrow>
          ''('' @ join '', '' (map py_repr xs) @ (if length xs = 1 then '','' else '''') @ '')'')"

definition final_file_info :: "estimators \<Rightarrow> bool \<Rightarrow> string \<Rightarrow> string" where
  "final_file_info es is_stepup ts =
     (let models =
        replace [CHR 0x27] '''' (replace '')'' '''' (replace ''('' '''' (replace '','' ''_''
          (replace '' '' '''' (py_str es)))))
      in ''results__'' @ models @ (if is_stepup then ''__step-up'' else '''') @ ''__'' @ ts)"

text \<open>
  The loop of \<open>run_analysis\<close>.  \<open>full_estimator_analysis\<close> is the external analysis
  routine: given the loop arguments it returns a table or raises (an operator's
  interrupt arrives as \<open>KeyboardInterrupt\<close>).  The \<open>tqdm\<close> progress bar only draws on
  the terminal and is left out.
\<close>

fun run_loop ::
  "'df env \<Rightarrow> (LoopArgs \<Rightarrow> error + 'df) \<Rightarrow> LoopArgs list \<Rightarrow> 'df list \<Rightarrow> ('df, 'df list) prog" where
  "run_loop os full_estimator_analysis [] acc = return acc"
| "run_loop os full_estimator_analysis (arg # rest) acc =
     and_then (lift (full_estimator_analysis arg)) (\<lambda>result.
     and_then (save_interim_result os arg result) (\<lambda>_.
     run_loop os full_estimator_analysis rest (acc @ [result])))"

definition run_analysis ::
  "'c DataFrame env \<Rightarrow> 'c sorter \<Rightarrow> (LoopArgs \<Rightarrow> error + 'c DataFrame) \<Rightarrow> LoopArgs list \<Rightarrow>
     estimators \<Rightarrow> bool \<Rightarrow> ('c DataFrame, 'c DataFrame) prog" where
  "run_analysis os quicksort full_estimator_analysis loop_args es is_stepup =
     and_then (case loop_args of
                 [] \<Rightarrow> raise IndexError
               | first # _ \<Rightarrow> return (outdir (options first))) (\<lambda>results_dir_attr.
     and_then (case results_dir_attr of
                 None \<Rightarrow> raise AttributeError
               | Some d \<Rightarrow> return d) (\<lambda>results_dir.
     and_then (if \<not> path_exists os results_dir then mkdir os results_dir else return ()) (\<lambda>_.
     and_then (run_loop os full_estimator_analysis loop_args []) (\<lambda>collected.
     and_then (lift (pd_concat os collected)) (\<lambda>combined.
     and_then (lift (sort_df quicksort combined)) (\<lambda>df.
     and_then (timestamp os) (\<lambda>ts.
     and_then (df_analyze_try_save os df results_dir (final_file_info es is_stepup ts)) (\<lambda>_.
     and_then (print_sorted os quicksort df) (\<lambda>_.
     return df)))))))))"

subsection \<open>Observing the trace\<close>

text \<open>
  The files written: the path and the table of every call of \<open>to_json\<close> (of \<open>to_csv\<close>)
  that returned, in the order of the calls.  A later write to the same path replaces
  the file of an earlier one.
\<close>

fun json_written :: "'df event list \<Rightarrow> (path \<times> 'df) list" where
  "json_written [] = []"
| "json_written (ev # tr) =
     (case ev of
        ToJson df p ok \<Rightarrow> if ok then (p, df) # json_written tr else json_written tr
      | _ \<Rightarrow> json_written tr)"

fun csv_written :: "'df event list \<Rightarrow> (path \<times> 'df) list" where
  "csv_written [] = []"
| "csv_written (ev # tr) =
     (case ev of
        ToCsv df p ok \<Rightarrow> if ok then (p, df) # csv_written tr else csv_written tr
      | _ \<Rightarrow> csv_written tr)"

text \<open>
  The interim artifacts of grid points with their results, when the clock is read for
  the \<open>t\<close>-th time at the first of them: for each grid point the path of its file
  without the extension, \<open>results__{estimator}[_step-up]__{timestamp}\<close> in the output
  directory of its options, and the result.
\<close>

definition outdir_of :: "LoopArgs \<Rightarrow> path" where
  "outdir_of a = (case outdir (options a) of Some d \<Rightarrow> d | None \<Rightarrow> [])"

fun interim_artifacts :: "'df env \<Rightarrow> nat \<Rightarrow> LoopArgs list \<Rightarrow> 'df list \<Rightarrow> (path \<times> 'df) list" where
  "interim_artifacts os t (a # args) (r # rs) =
     (pjoin (outdir_of a) (interim_file_info a (stamp (ctime os t))), r)
       # interim_artifacts os (Suc t) args rs"
| "interim_artifacts os t args rs = []"

definition with_extension :: "string \<Rightarrow> (path \<times> 'df) list \<Rightarrow> (path \<times> 'df) list" where
  "with_extension ext files = map (\<lambda>f. (fst f @ ext, snd f)) files"

subsection \<open>Example inputs\<close>

definition ex_df :: "rat DataFrame" where
  "ex_df = \<lparr>columns = [''mae'', ''mae_sd'', ''accuracy''],
            rows = [[2, 1 / 10, 8 / 10], [1, 2 / 10, 7 / 10]]\<rparr>"

definition ex_df_sorted :: "rat DataFrame" where
  "ex_df_sorted = \<lparr>columns = [''mae'', ''mae_sd'', ''accuracy''],
                   rows = [[1, 2 / 10, 7 / 10], [2, 1 / 10, 8 / 10]]\<rparr>"

definition ex_df_upper :: "rat DataFrame" where
  "ex_df_upper = \<lparr>columns = [''MAE'', ''MAE_sd'', ''accuracy''],
                  rows = [[2, 1 / 10, 8 / 10], [1, 2 / 10, 7 / 10]]\<rparr>"

definition ex_os_json_fails :: "rat DataFrame env" where
  "ex_os_json_fails = ex_os\<lparr>to_json_fails := (\<lambda>df p. True)\<rparr>"

definition ex_os_csv_fails :: "rat DataFrame env" where
  "ex_os_csv_fails = ex_os\<lparr>to_csv_fails := (\<lambda>df p. True)\<rparr>"

definition ex_os_render_fails :: "rat DataFrame env" where
  \<comment> \<open>the JSON write fails and pandas cannot render the table (\<open>tabulate\<close> is missing)\<close>
  "ex_os_render_fails =
     ex_os\<lparr>to_json_fails := (\<lambda>df p. True), to_markdown := (\<lambda>df fmt. None)\<rparr>"

definition ex_os_writes_fail :: "rat DataFrame env" where
  "ex_os_writes_fail = ex_os\<lparr>to_json_fails := (\<lambda>df p. True), to_csv_fails := (\<lambda>df p. True)\<rparr>"

definition ex_os_same_second :: "rat DataFrame env" where
  \<comment> \<open>every reading of the clock falls into the same second\<close>
  "ex_os_same_second = ex_os\<lparr>ctime := (\<lambda>n. ''Tue Nov  3 22:47:00 2026'')\<rparr>"

definition ex_attrs :: dir_attrs where
  "ex_attrs =
     \<lparr>attr_interim_results = (\<lambda>d. AttrPath ''/data/out/interim''),
      attr_final_results = (\<lambda>d. AttrPath ''/data/out/final''),
      attr_feature_selection = (\<lambda>d. AttrPath ''/data/out/selection'')\<rparr>"

definition ex_setup_io :: "path \<Rightarrow> (rat DataFrame, ProgramDirs) prog" where
  "ex_setup_io out = return ProgramDirs_default"

definition ex_regress_args :: init_args where
  "ex_regress_args =
     \<lparr>arg_datapath = ''/data/in.csv'',
      arg_target = ''target'',
      arg_drop_nan = ''none'',
      arg_feat_clean = [''constant''],
      arg_feat_select = [''pca'', ''d''],
      arg_n_feat = 10,
      arg_mode = ''regress'',
      arg_classifiers = [''svm''],
      arg_regressors = [''linear''],
      arg_htune = False,
      arg_htune_val = ''kfold'',
      arg_htune_val_size = 3,
      arg_htune_trials = 100,
      arg_test_val = ''kfold'',
      arg_test_val_sizes = OneSize 5,
      arg_outdir = Some ''/data/out'',
      arg_is_spreadsheet = False,
      arg_verbosity = INFO\<rparr>"

definition ex_options :: ProgramOptions where
  "ex_options =
     \<lparr>cleaning_options =
        \<lparr>c_datapath = ''/data/in.csv'', c_target = ''target'',
         c_feat_clean = [''constant''], c_drop_nan = ''none''\<rparr>,
      selection_options =
        \<lparr>s_cleaning_options =
           \<lparr>c_datapath = ''/data/in.csv'', c_target = ''target'',
            c_feat_clean = [''constant''], c_drop_nan = ''none''\<rparr>,
         s_mode = ''classify'', s_classifiers = [''knn'', ''svm''],
         s_regressors = [''linear''], s_feat_select = [''none'', ''step-up''], s_n_feat = 10\<rparr>,
      datapath = ''/data/in.csv'',
      target = ''target'',
      drop_nan = ''none'',
      feat_clean = [''constant''],
      feat_select = [''none'', ''step-up''],
      n_feat = 10,
      mode = ''classify'',
      classifiers = [''knn'', ''svm''],
      regressors = [''linear''],
      htune = False,
      htune_val = ''kfold'',
      htune_val_size = 3,
      htune_trials = 100,
      test_val = ''kfold'',
      test_val_sizes = [5],
      outdir = Some ''/data/out'',
      program_dirs = ProgramDirs_default,
      is_spreadsheet = False,
      verbosity = INFO\<rparr>"

text \<open>
  The four grid points of estimators \<open>{knn, svm}\<close> and selection methods
  \<open>{none, step-up}\<close>, an analysis routine that is interrupted in the third of them, and
  one that completes all four.
\<close>

definition ex_point :: "string \<Rightarrow> string \<Rightarrow> LoopArgs" where
  "ex_point est sel =
     \<lparr>options = ex_options, estimator = est, feature_selection = Some sel, loop_verbosity = 20\<rparr>"

definition ex_loop_args :: "LoopArgs list" where
  "ex_loop_args =
     [ex_point ''knn'' ''none'', ex_point ''svm'' ''none'',
      ex_point ''knn'' ''step-up'', ex_point ''svm'' ''step-up'']"

definition ex_svm_args :: "LoopArgs list" where
  \<comment> \<open>estimator \<open>svm\<close> with the selection methods \<open>none\<close>, \<open>pca\<close> and \<open>step-up\<close>\<close>
  "ex_svm_args =
     [ex_point ''svm'' ''none'', ex_point ''svm'' ''pca'', ex_point ''svm'' ''step-up'']"

definition ex_result :: "LoopArgs \<Rightarrow> rat DataFrame" where
  "ex_result a =
     \<lparr>columns = [''mae'', ''mae_sd''],
      rows = [[if estimator a = ''knn'' then 2 else 1,
               if feature_selection a = Some ''none'' then 1 / 10 else 2 / 10]]\<rparr>"

definition ex_analysis_interrupted :: "LoopArgs \<Rightarrow> error + rat DataFrame" where
  "ex_analysis_interrupted a =
     (if feature_selection a = Some ''step-up'' then Inl KeyboardInterrupt
      else Inr (ex_result a))"

definition ex_analysis :: "LoopArgs \<Rightarrow> error + rat DataFrame" where
  "ex_analysis a = Inr (ex_result a)"

definition ex_combined :: "rat DataFrame" where
  \<comment> \<open>the four results of \<open>ex_analysis\<close> on \<open>ex_loop_args\<close>, concatenated\<close>
  "ex_combined =
     \<lparr>columns = [''mae'', ''mae_sd''],
      rows = [[2, 1 / 10], [1, 1 / 10], [2, 2 / 10], [1, 2 / 10]]\<rparr>"

definition ex_final :: "rat DataFrame" where
  "ex_final =
     \<lparr>columns = [''mae'', ''mae_sd''],
      rows = [[1, 1 / 10], [1, 2 / 10], [2, 1 / 10], [2, 2 / 10]]\<rparr>"

section \<open>Properties of get_hash\<close>

lemma dict_pop_keys:
  "dict_pop k d = Inr d' \<Longrightarrow> set (dict_keys d') = set (dict_keys d) - {k}"
  by (auto simp: dict_pop_def dict_keys_def split: if_splits)


lemma pop_all_missing:
  "\<not> set ig \<subseteq> set (dict_keys d) \<Longrightarrow> \<exists>k \<in> set ig. pop_all ig d = Inl (KeyError k)"
proof (induction ig arbitrary: d)
  case Nil
  then show ?case by simp
next
  case (Cons i ig)
  show ?case
  proof (cases "i \<in> set (dict_keys d)")
    case False
    then show ?thesis by (simp add: dict_pop_def)
  next
    case True
    define d1 where "d1 = filter (\<lambda>kv. fst kv \<noteq> i) d"
    have p: "dict_pop i d = Inr d1" using True by (simp add: dict_pop_def d1_def)
    have "set (dict_keys d1) = set (dict_keys d) - {i}" by (rule dict_pop_keys [OF p])
    with Cons.prems True have "\<not> set ig \<subseteq> set (dict_keys d1)" by auto
    from Cons.IH [OF this] obtain k where "k \<in> set ig" "pop_all ig d1 = Inl (KeyError k)"
      by blast
    with p show ?thesis by auto
  qed
qed






lemma sorted_set_order_independent:
  "set xs = set ys \<Longrightarrow> sorted_set xs = sorted_set ys"
  unfolding sorted_set_def
  by (rule sorted_distinct_set_unique) simp_all



text \<open>
  C10.  When some name in the ignores list is not a key of the dictionary, \<open>get_hash\<close>
  raises the \<open>KeyError\<close> of \<open>dict.pop\<close>; it returns a digest only when every ignored
  name is a key.
\<close>

theorem get_hash_missing_ignore_raises:
  "(\<not> set (ignores_list ignores) \<subseteq> set (dict_keys args) \<longrightarrow>
      (\<exists>k \<in> set (ignores_list ignores). get_hash md5_str args ignores = Inl (KeyError k))) \<and>
   (get_hash md5_str args ignores = Inr digest \<longrightarrow>
      set (ignores_list ignores) \<subseteq> set (dict_keys args))"
proof -
  have a: "\<exists>k \<in> set (ignores_list ignores). get_hash md5_str args ignores = Inl (KeyError k)"
    if "\<not> set (ignores_list ignores) \<subseteq> set (dict_keys args)"
  proof -
    from pop_all_missing [OF that] obtain k where
      "k \<in> set (ignores_list ignores)" "pop_all (ignores_list ignores) args = Inl (KeyError k)"
      by blast
    then show ?thesis by (auto simp: get_hash_def)
  qed
  have b: "set (ignores_list ignores) \<subseteq> set (dict_keys args)"
    if "get_hash md5_str args ignores = Inr digest"
  proof (rule ccontr)
    assume "\<not> set (ignores_list ignores) \<subseteq> set (dict_keys args)"
    from a [OF this] that show False by auto
  qed
  from a b show ?thesis by blast
qed

theorem get_hash_missing_ignore_raises_witness:
  "\<not> set (ignores_list (Some [''seed''])) \<subseteq> set (dict_keys ex_config1) \<and>
   get_hash ex_digest ex_config1 (Some [''seed'']) = Inl (KeyError ''seed'') \<and>
   get_hash ex_digest ex_config1 (Some [''verbosity'']) = Inr ''mode=classify;n_feat=10;'' \<and>
   set (ignores_list (Some [''verbosity''])) \<subseteq> set (dict_keys ex_config1)"
proof -
  have h: "\<not> set (ignores_list (Some [''seed''])) \<subseteq> set (dict_keys ex_config1)"
    by (simp add: ignores_list_def dict_keys_def ex_config1_def)
  have v: "get_hash ex_digest ex_config1 (Some [''verbosity'']) = Inr ''mode=classify;n_feat=10;''"
    by (simp add: get_hash_def ignores_list_def dict_pop_def dict_keys_def ex_config1_def
        ex_digest_def)
  from get_hash_missing_ignore_raises [of "Some [''seed'']" ex_config1 ex_digest]
    get_hash_missing_ignore_raises [of "Some [''verbosity'']" ex_config1 ex_digest
      "''mode=classify;n_feat=10;''"]
  show ?thesis using h v by (simp add: ignores_list_def)
qed

section \<open>Properties of the statements\<close>

lemmas prog_defs =
  return_def raise_def and_then_def try_except_def emit_def warn_def print_def print_exc_def
  mkdir_def mkdtemp_def to_json_def to_csv_def discard_def lift_def render_def is_Exception_def
  Let_def

section \<open>Properties of ProgramDirs\<close>

lemma mkdir_loop_over_keys: "mkdir_loop os (dict_iter d) new = return new"
  by (induction d) (simp_all add: dict_iter_def)

lemma ProgramDirs_new_makes_no_subdirectory:
  "snd (ProgramDirs_new os root_arg w) = snd (configure_root os root_arg w)"
  by (simp add: ProgramDirs_new_def mkdir_loop_over_keys and_then_def return_def
      split: prod.splits sum.splits option.splits)

lemma configure_root_not_writable:
  "\<not> access_W_OK os r \<Longrightarrow>
     configure_root os (Some r) w =
       (Inr (None, False), w\<lparr>trace := trace w @ [Warn (FallingBackToMemory PermissionError)]\<rparr>)"
  by (simp add: configure_root_def prog_defs)

text \<open>
  C1.  \<open>ProgramDirs.new\<close> is meant to create the directories \<open>inspection\<close>, \<open>features\<close>,
  \<open>features/associations\<close>, \<open>features/predictions\<close>, \<open>selection\<close>, \<open>tuning\<close> and \<open>results\<close>
  under the resolved root and to fall back to \<open>ProgramDirs(root=None)\<close> when one of them
  cannot be created.  Its loop runs over the keys of \<open>new.__dict__\<close>, which are strings,
  so \<open>isinstance(path, Path)\<close> never holds and \<open>mkdir\<close> is never called.  For the writable
  root \<open>/data/out\<close> the only directory created is the root itself (by \<open>configure_root\<close>),
  and on a machine where none of the subdirectories can be created the result is the
  same, with \<open>root = Some /data/out\<close>.
\<close>

theorem ProgramDirs_new_creates_no_subdirectories:
  "ProgramDirs_new ex_os (Some ''/data/out'') w0 =
     (Inr ex_dirs, \<lparr>trace = [Mkdir ''/data/out''], ticks = 0\<rparr>) \<and>
   ProgramDirs_new ex_os_no_subdirs (Some ''/data/out'') w0 =
     (Inr ex_dirs, \<lparr>trace = [Mkdir ''/data/out''], ticks = 0\<rparr>)"
  by (simp add: ProgramDirs_new_def mkdir_loop_over_keys configure_root_def prog_defs
      ex_os_no_subdirs_def ex_os_def w0_def ex_dirs_def pjoin_def JOBLIB_def)

text \<open>
  C2.  An explicitly requested root that is not writable makes \<open>configure_root\<close> raise
  \<open>PermissionError\<close>, but the \<^verbatim>\<open>raise\<close> stands inside the function's own
  \<^verbatim>\<open>try: ... except Exception\<close>, which catches it, warns and returns \<open>(None, False)\<close>: the
  caller gets the in-memory state, not an error.
\<close>

theorem configure_root_swallows_PermissionError:
  "configure_root ex_os_readonly (Some ''/data/out'') w0 =
     (Inr (None, False), \<lparr>trace = [Warn (FallingBackToMemory PermissionError)], ticks = 0\<rparr>)"
  by (simp add: configure_root_def prog_defs ex_os_readonly_def ex_os_def w0_def)

section \<open>Properties of sort_df\<close>

lemma lower_lower_case_labels:
  "map lower [''mae'', ''mae_sd'', ''accuracy''] = [''mae'', ''mae_sd'', ''accuracy'']"
  by code_simp

lemma lower_upper_case_labels:
  "map lower [''MAE'', ''MAE_sd'', ''accuracy''] = [''mae'', ''mae_sd'', ''accuracy'']"
  by code_simp

lemma find_sort_col_example: "find_sort_col [''mae'', ''mae_sd'', ''accuracy''] = Some ''mae''"
  by code_simp

lemma no_mae_column:
  "filter (\<lambda>i. [''MAE'', ''MAE_sd'', ''accuracy''] ! i = ''mae'')
     [0..<length [''MAE'', ''MAE_sd'', ''accuracy'']] = []"
  by code_simp

lemma stable_sorter_sorts: "sorts_ascending stable_sorter"
  by (simp add: sorts_ascending_def stable_sorter_def)

lemma sort_df_lower_case_example: "sort_df stable_sorter ex_df = Inr ex_df_sorted"
  by code_simp

text \<open>
  C7.  \<open>sort_df\<close> looks for the error column among the lower-cased labels and then sorts
  by the lower-cased label.  For a table whose error column is labelled \<open>MAE\<close> the label
  \<open>mae\<close> is found, but the table has no column of that name and \<open>sort_values\<close> raises
  \<open>KeyError\<close>, whatever the sorting routine: no table is returned.
\<close>

theorem sort_df_upper_case_label_raises:
  "sort_df quicksort ex_df_upper = Inl (KeyError ''mae'')"
  unfolding sort_df_def sort_values_def Let_def
  by (simp only: ex_df_upper_def DataFrame.simps lower_upper_case_labels find_sort_col_example
      option.case no_mae_column list.case)
section \<open>Properties of the two try_save\<close>

lemma df_analyze_try_save_prints:
  assumes "Print line \<in> set (trace (snd (df_analyze_try_save os df out file_info w)))"
  shows "Print line \<in> set (trace w) \<or>
         line \<in> {''Saved interim result to '' @ pjoin out (file_info @ ''.json''),
                 ''Failed to save following results to '' @ pjoin out (file_info @ ''.json''),
                 ''Saved interim result to '' @ pjoin out (file_info @ ''.csv''),
                 ''Failed to save following results to '' @ pjoin out (file_info @ ''.csv'')}"
  using assms
  by (auto simp: df_analyze_try_save_def prog_defs split: if_splits option.splits)

text \<open>
  C6.  When a write fails, both \<open>try_save\<close> print the traceback and a line "Failed to
  save ..." and then evaluate \<open>df.to_markdown(tablefmt="simple", floatfmt="0.5f")\<close> without
  printing its value (\<open>print_sorted\<close> in the same file does print it).  With a failing
  JSON write in df-analyze.py and a failing CSV write in saving.py the rendering
  \<open><table>\<close> of the table is not among the lines written.
\<close>

theorem try_save_fallback_rendering_not_printed:
  "to_markdown ex_os_json_fails ex_df ''0.5f'' = Some ''<table>'' \<and>
   df_analyze_try_save ex_os_json_fails ex_df ''/data/out'' ''results__svm'' w0 =
     (Inr (),
      \<lparr>trace =
         [ToJson ex_df ''/data/out/results__svm.json'' False,
          PrintExc OSError,
          Print ''Failed to save following results to /data/out/results__svm.json'',
          ToCsv ex_df ''/data/out/results__svm.csv'' True,
          Print ''Saved interim result to /data/out/results__svm.csv''],
       ticks = 0\<rparr>) \<and>
   to_markdown ex_os_csv_fails ex_df ''0.5f'' = Some ''<table>'' \<and>
   try_save ex_attrs ex_os_csv_fails ex_dirs ex_df ''stats'' (EnumMember Final) None [] w0 =
     (Inr (),
      \<lparr>trace =
         [Mkdir ''/data/out/final/json'',
          Mkdir ''/data/out/final/csv'',
          ToJson ex_df ''/data/out/final/json/stats.json'' True,
          Print ''Saved final results for all options to /data/out/final/json/stats.json'',
          ToCsv ex_df ''/data/out/final/csv/stats.csv'' False,
          PrintExc OSError,
          Print ''Failed to save final results for all options results to /data/out/final/csv/stats.csv:''],
       ticks = 0\<rparr>)"
  by (simp add: df_analyze_try_save_def try_save_def try_save_writes_def save_location_def
      prog_defs getattr_def truediv_def ex_os_json_fails_def ex_os_csv_fails_def ex_os_def
      ex_attrs_def w0_def pjoin_def parent_def)

lemma and_then_Inl:
  "fst (and_then m f w) = Inl e \<Longrightarrow>
     fst (m w) = Inl e \<or> (\<exists>x w'. m w = (Inr x, w') \<and> fst (f x w') = Inl e)"
  by (auto simp: and_then_def split: prod.splits sum.splits)

lemma save_location_invalid:
  "(fst (save_location attrs dirs ft sel cleaning w) = Inl invalid_file_type) =
   (ft \<notin> {EnumMember Interim, EnumMember Final, EnumMember Feature, EnumMember Params})"
  by (auto simp: save_location_def getattr_def truediv_def prog_defs invalid_file_type_def
      split: attr_value.splits option.splits)

lemma truediv_error: "fst (truediv p q w) \<noteq> Inl invalid_file_type"
  by (simp add: truediv_def prog_defs invalid_file_type_def split: option.splits)

lemma mkdir_error: "fst (mkdir os p w) \<noteq> Inl invalid_file_type"
  by (simp add: prog_defs invalid_file_type_def)

lemma try_save_writes_error: "fst (try_save_writes os desc df json csv w) \<noteq> Inl invalid_file_type"
  by (simp add: try_save_writes_def prog_defs invalid_file_type_def split: option.splits)

lemma try_save_invalid:
  "(fst (try_save attrs os dirs df file_stem ft sel cleaning w) = Inl invalid_file_type) =
   (ft \<notin> {EnumMember Interim, EnumMember Final, EnumMember Feature, EnumMember Params})"
proof
  assume "ft \<notin> {EnumMember Interim, EnumMember Final, EnumMember Feature, EnumMember Params}"
  then show "fst (try_save attrs os dirs df file_stem ft sel cleaning w) = Inl invalid_file_type"
    by (simp add: try_save_def save_location_def prog_defs)
next
  assume a: "fst (try_save attrs os dirs df file_stem ft sel cleaning w) = Inl invalid_file_type"
  show "ft \<notin> {EnumMember Interim, EnumMember Final, EnumMember Feature, EnumMember Params}"
  proof (rule ccontr)
    assume "\<not> ft \<notin> {EnumMember Interim, EnumMember Final, EnumMember Feature, EnumMember Params}"
    then have loc: "fst (save_location attrs dirs ft sel cleaning w) \<noteq> Inl invalid_file_type"
      using save_location_invalid [of attrs dirs ft sel cleaning w] by blast
    from a show False
      unfolding try_save_def
      apply -
      apply (drule and_then_Inl, erule disjE, simp add: loc, clarify)
      apply (drule and_then_Inl, erule disjE, simp add: truediv_error, clarify)
      apply (drule and_then_Inl, erule disjE, simp add: truediv_error, clarify)
      apply (drule and_then_Inl, erule disjE, simp add: mkdir_error, clarify)
      apply (drule and_then_Inl, erule disjE, simp add: mkdir_error, clarify)
      apply (simp add: try_save_writes_error)
      done
  qed
qed

lemma try_save_raises_at_once:
  "ft \<notin> {EnumMember Interim, EnumMember Final, EnumMember Feature, EnumMember Params} \<Longrightarrow>
     try_save attrs os dirs df file_stem ft sel cleaning w = (Inl invalid_file_type, w)"
  by (simp add: try_save_def save_location_def prog_defs)

lemma try_save_declared_attributes:
  "ft \<in> {EnumMember Interim, EnumMember Final, EnumMember Feature, EnumMember Params} \<Longrightarrow>
     try_save declared_attrs os dirs df file_stem ft sel cleaning w = (Inl AttributeError, w)"
  by (auto simp: try_save_def save_location_def getattr_def declared_attrs_def prog_defs)

text \<open>
  C4, as the code has it.  \<open>try_save\<close> raises \<open>ValueError("Invalid FileType for manual
  saving")\<close>, before it does anything else, exactly when \<open>file_type\<close> is not one of
  \<open>Interim\<close>, \<open>Final\<close>, \<open>Feature\<close>, \<open>Params\<close>: for an object that is no \<open>FileType\<close> and also
  for \<open>FileType.Univariate\<close>.  For the four handled types it does not raise that error,
  whatever the attribute lookups, the directories and the writes do.
\<close>

theorem try_save_raises_for_unhandled_file_types:
  "(file_type \<notin> {EnumMember Interim, EnumMember Final, EnumMember Feature, EnumMember Params}
      \<longrightarrow> try_save attrs os dirs df file_stem file_type sel cleaning w
            = (Inl invalid_file_type, w)) \<and>
   (file_type \<in> {EnumMember Interim, EnumMember Final, EnumMember Feature, EnumMember Params}
      \<longrightarrow> fst (try_save attrs os dirs df file_stem file_type sel cleaning w)
            \<noteq> Inl invalid_file_type)"
proof (intro conjI impI)
  assume "file_type \<notin> {EnumMember Interim, EnumMember Final, EnumMember Feature, EnumMember Params}"
  then show "try_save attrs os dirs df file_stem file_type sel cleaning w = (Inl invalid_file_type, w)"
    by (rule try_save_raises_at_once)
next
  assume "file_type \<in> {EnumMember Interim, EnumMember Final, EnumMember Feature, EnumMember Params}"
  then show "fst (try_save attrs os dirs df file_stem file_type sel cleaning w) \<noteq> Inl invalid_file_type"
    using try_save_invalid [of attrs os dirs df file_stem file_type sel cleaning w] by blast
qed

theorem try_save_raises_for_unhandled_file_types_witness:
  "try_save declared_attrs ex_os ex_dirs ex_df ''stats'' NonMember None [] w0
     = (Inl invalid_file_type, w0) \<and>
   fst (try_save declared_attrs ex_os ex_dirs ex_df ''stats'' (EnumMember Feature) (Some ''pca'')
          [''constant'', ''correlated''] w0) \<noteq> Inl invalid_file_type \<and>
   fst (try_save ex_attrs ex_os ex_dirs ex_df ''stats'' (EnumMember Params) (Some ''pca'')
          [''constant'', ''correlated''] w0) \<noteq> Inl invalid_file_type"
  using try_save_raises_for_unhandled_file_types
          [where file_type = NonMember and attrs = declared_attrs and os = ex_os and dirs = ex_dirs
             and df = ex_df and file_stem = "''stats''" and sel = None and cleaning = "[]"
             and w = w0]
        try_save_raises_for_unhandled_file_types
          [where file_type = "EnumMember Feature" and attrs = declared_attrs and os = ex_os
             and dirs = ex_dirs and df = ex_df and file_stem = "''stats''" and sel = "Some ''pca''"
             and cleaning = "[''constant'', ''correlated'']" and w = w0]
        try_save_raises_for_unhandled_file_types
          [where file_type = "EnumMember Params" and attrs = ex_attrs and os = ex_os
             and dirs = ex_dirs and df = ex_df and file_stem = "''stats''" and sel = "Some ''pca''"
             and cleaning = "[''constant'', ''correlated'']" and w = w0]
  by simp

text \<open>
  The claim C4 as it is written fails at \<open>FileType.Univariate\<close>: a member of the
  enumerated set, for which \<open>try_save\<close> raises the error.
\<close>

theorem try_save_Univariate_counterexample:
  "EnumMember Univariate \<in>
     {EnumMember Interim, EnumMember Final, EnumMember Feature, EnumMember Params,
      EnumMember Univariate} \<and>
   fst (try_save declared_attrs ex_os ex_dirs ex_df ''stats'' (EnumMember Univariate) None [] w0)
     = Inl (ValueError ''Invalid FileType for manual saving'')"
  by (simp add: try_save_def save_location_def prog_defs invalid_file_type_def)

lemma df_analyze_try_save_cases:
  "df_analyze_try_save os df out file_info w =
     (let json = pjoin out (file_info @ ''.json''); csv = pjoin out (file_info @ ''.csv'');
          json_events =
            (if to_json_fails os df json
             then [ToJson df json False, PrintExc OSError,
                   Print (''Failed to save following results to '' @ json)]
             else [ToJson df json True, Print (''Saved interim result to '' @ json)]);
          csv_events =
            (if to_csv_fails os df csv
             then [ToCsv df csv False, PrintExc OSError,
                   Print (''Failed to save following results to '' @ csv)]
             else [ToCsv df csv True, Print (''Saved interim result to '' @ csv)])
      in if to_json_fails os df json \<and> to_markdown os df ''0.5f'' = None
         then (Inl ImportError, w\<lparr>trace := trace w @ json_events\<rparr>)
         else if to_csv_fails os df csv \<and> to_markdown os df ''0.5f'' = None
         then (Inl ImportError, w\<lparr>trace := trace w @ json_events @ csv_events\<rparr>)
         else (Inr (), w\<lparr>trace := trace w @ json_events @ csv_events\<rparr>))"
  by (simp add: df_analyze_try_save_def prog_defs split: option.splits)

lemma try_save_writes_cases:
  "try_save_writes os desc df json csv w =
     (let json_events =
            (if to_json_fails os df json
             then [ToJson df json False, PrintExc OSError,
                   Print (''Failed to save following results to '' @ json)]
             else [ToJson df json True, Print (''Saved '' @ desc @ '' to '' @ json)]);
          csv_events =
            (if to_csv_fails os df csv
             then [ToCsv df csv False, PrintExc OSError,
                   Print (''Failed to save '' @ desc @ '' results to '' @ csv @ '':'')]
             else [ToCsv df csv True, Print (''Saved '' @ desc @ '' to '' @ csv)])
      in if to_json_fails os df json \<and> to_markdown os df ''0.5f'' = None
         then (Inl ImportError, w\<lparr>trace := trace w @ json_events\<rparr>)
         else if to_csv_fails os df csv \<and> to_markdown os df ''0.5f'' = None
         then (Inl ImportError, w\<lparr>trace := trace w @ json_events @ csv_events\<rparr>)
         else (Inr (), w\<lparr>trace := trace w @ json_events @ csv_events\<rparr>))"
  by (simp add: try_save_writes_def prog_defs split: option.splits)

text \<open>
  C5, as the code has it.  Each write stands in its own \<^verbatim>\<open>try\<close>, but the handler of a
  failed write calls \<open>df.to_markdown\<close> outside any \<^verbatim>\<open>try\<close>.  In both \<open>try_save\<close> the JSON
  write is always attempted.  The CSV write is attempted as well, whether the JSON write
  succeeded or failed, unless the JSON write failed and the rendering in its handler
  raised; and \<open>try_save\<close> returns without an exception unless a write failed and the
  rendering in its handler raised.  So a failed write alone never stops the other
  write and never raises to the caller.
\<close>

theorem try_save_writes_isolated:
  "ToJson df (pjoin out (file_info @ ''.json''))
       (\<not> to_json_fails os df (pjoin out (file_info @ ''.json'')))
     \<in> set (trace (snd (df_analyze_try_save os df out file_info w))) \<and>
   ((to_json_fails os df (pjoin out (file_info @ ''.json'')) \<longrightarrow> to_markdown os df ''0.5f'' \<noteq> None)
      \<longrightarrow> ToCsv df (pjoin out (file_info @ ''.csv''))
              (\<not> to_csv_fails os df (pjoin out (file_info @ ''.csv'')))
            \<in> set (trace (snd (df_analyze_try_save os df out file_info w))) \<and>
          ((to_csv_fails os df (pjoin out (file_info @ ''.csv'')) \<longrightarrow> to_markdown os df ''0.5f'' \<noteq> None)
             \<longrightarrow> fst (df_analyze_try_save os df out file_info w) = Inr ())) \<and>
   ToJson df json (\<not> to_json_fails os df json)
     \<in> set (trace (snd (try_save_writes os desc df json csv w))) \<and>
   ((to_json_fails os df json \<longrightarrow> to_markdown os df ''0.5f'' \<noteq> None)
      \<longrightarrow> ToCsv df csv (\<not> to_csv_fails os df csv)
            \<in> set (trace (snd (try_save_writes os desc df json csv w))) \<and>
          ((to_csv_fails os df csv \<longrightarrow> to_markdown os df ''0.5f'' \<noteq> None)
             \<longrightarrow> fst (try_save_writes os desc df json csv w) = Inr ()))"
  by (simp add: df_analyze_try_save_cases try_save_writes_cases Let_def)

theorem try_save_writes_isolated_witness:
  "fst (df_analyze_try_save ex_os_json_fails ex_df ''/data/out'' ''results__svm'' w0) = Inr () \<and>
   ToJson ex_df ''/data/out/results__svm.json'' False
     \<in> set (trace (snd (df_analyze_try_save ex_os_json_fails ex_df ''/data/out''
                           ''results__svm'' w0))) \<and>
   ToCsv ex_df ''/data/out/results__svm.csv'' True
     \<in> set (trace (snd (df_analyze_try_save ex_os_json_fails ex_df ''/data/out''
                           ''results__svm'' w0))) \<and>
   fst (try_save_writes ex_os_csv_fails ''interim results'' ex_df
          ''/data/out/interim/json/stats.json'' ''/data/out/interim/csv/stats.csv'' w0) = Inr () \<and>
   ToJson ex_df ''/data/out/interim/json/stats.json'' True
     \<in> set (trace (snd (try_save_writes ex_os_csv_fails ''interim results'' ex_df
          ''/data/out/interim/json/stats.json'' ''/data/out/interim/csv/stats.csv'' w0))) \<and>
   ToCsv ex_df ''/data/out/interim/csv/stats.csv'' False
     \<in> set (trace (snd (try_save_writes ex_os_csv_fails ''interim results'' ex_df
          ''/data/out/interim/json/stats.json'' ''/data/out/interim/csv/stats.csv'' w0)))"
proof -
  have f1: "to_json_fails ex_os_json_fails df p" "\<not> to_csv_fails ex_os_json_fails df p"
    "to_markdown ex_os_json_fails df fmt \<noteq> None" for df p fmt
    by (simp_all add: ex_os_json_fails_def ex_os_def)
  have f2: "\<not> to_json_fails ex_os_csv_fails df p" "to_csv_fails ex_os_csv_fails df p"
    "to_markdown ex_os_csv_fails df fmt \<noteq> None" for df p fmt
    by (simp_all add: ex_os_csv_fails_def ex_os_def)
  from try_save_writes_isolated
         [where os = ex_os_json_fails and df = ex_df and out = "''/data/out''"
            and file_info = "''results__svm''" and w = w0]
       try_save_writes_isolated
         [where os = ex_os_csv_fails and df = ex_df and desc = "''interim results''"
            and json = "''/data/out/interim/json/stats.json''"
            and csv = "''/data/out/interim/csv/stats.csv''" and w = w0]
  show ?thesis using f1 f2 by (simp add: pjoin_def)
qed

text \<open>
  The claim C5 as it is written fails where the JSON write fails and pandas cannot
  render the table: the exception of \<open>df.to_markdown\<close> leaves \<open>try_save\<close>, and the CSV
  write, which would have succeeded, is not attempted.
\<close>

theorem try_save_rendering_raises_counterexample:
  "\<not> to_csv_fails ex_os_render_fails ex_df ''/data/out/results__svm.csv'' \<and>
   df_analyze_try_save ex_os_render_fails ex_df ''/data/out'' ''results__svm'' w0 =
     (Inl ImportError,
      \<lparr>trace =
         [ToJson ex_df ''/data/out/results__svm.json'' False,
          PrintExc OSError,
          Print ''Failed to save following results to /data/out/results__svm.json''],
       ticks = 0\<rparr>)"
  by (simp add: df_analyze_try_save_def prog_defs ex_os_render_fails_def ex_os_def w0_def
      pjoin_def)
section \<open>Properties of ProgramOptions\<close>

lemma set_sorted_set: "set (sorted_set xs) = set xs"
  by (simp add: sorted_set_def)

lemma validate_datapath_pure: "snd (validate_datapath os p w) = w"
  by (simp add: validate_datapath_def resolved_path_def prog_defs split: option.splits)

lemma ensure_outdir_creates:
  "ensure_outdir os dp outdir_arg w = (Inr out, w1) \<Longrightarrow> \<not> path_exists os out \<Longrightarrow>
     trace w1 = trace w @ [Mkdir out]"
  by (auto simp: ensure_outdir_def prog_defs split: if_splits option.splits)

lemma and_then_raise: "and_then (raise e) f = raise e"
  by (rule ext) (simp add: and_then_def raise_def)

lemma ProgramOptions_init_conflict_steps:
  assumes "arg_mode a = ''regress''"
    and "''d'' \<in> set (arg_feat_select a) \<or> ''auc'' \<in> set (arg_feat_select a)"
  shows "ProgramOptions_init os setup_io a =
     and_then (validate_datapath os (arg_datapath a)) (\<lambda>datapath'.
     and_then (ensure_outdir os datapath' (arg_outdir a)) (\<lambda>outdir'.
     and_then (setup_io outdir') (\<lambda>program_dirs'.
     raise (regress_selection_error (sorted_set (arg_feat_select a))))))"
  using assms
  by (simp add: ProgramOptions_init_def Let_def set_sorted_set and_then_raise)

text \<open>
  C8, as the code has it.  With \<open>mode = regress\<close> and \<open>d\<close> or \<open>auc\<close> among the feature
  selection methods, \<open>ProgramOptions.__init__\<close> never returns an object: it raises.  The
  check of the combination is the last step of the constructor, so its \<open>ValueError\<close> is
  raised after \<open>validate_datapath\<close>, \<open>ensure_outdir\<close> and \<open>setup_io\<close> have run, and an
  output directory that did not exist has been created by \<open>ensure_outdir\<close> by then.
\<close>

theorem ProgramOptions_init_regress_conflict:
  assumes "arg_mode a = ''regress''"
    and "''d'' \<in> set (arg_feat_select a) \<or> ''auc'' \<in> set (arg_feat_select a)"
  shows "(\<exists>e. fst (ProgramOptions_init os setup_io a w) = Inl e) \<and>
         (validate_datapath os (arg_datapath a) w = (Inr dp, w) \<and>
          ensure_outdir os dp (arg_outdir a) w = (Inr out, w1) \<and>
          setup_io out w1 = (Inr dirs, w2)
            \<longrightarrow> ProgramOptions_init os setup_io a w =
                  (Inl (regress_selection_error (sorted_set (arg_feat_select a))), w2) \<and>
                (\<not> path_exists os out \<longrightarrow> trace w1 = trace w @ [Mkdir out]))"
proof (intro conjI impI)
  show "\<exists>e. fst (ProgramOptions_init os setup_io a w) = Inl e"
    unfolding ProgramOptions_init_conflict_steps [OF assms]
    by (auto simp: and_then_def raise_def split: prod.splits sum.splits)
next
  assume s: "validate_datapath os (arg_datapath a) w = (Inr dp, w) \<and>
          ensure_outdir os dp (arg_outdir a) w = (Inr out, w1) \<and>
          setup_io out w1 = (Inr dirs, w2)"
  then show "ProgramOptions_init os setup_io a w =
                  (Inl (regress_selection_error (sorted_set (arg_feat_select a))), w2)"
    unfolding ProgramOptions_init_conflict_steps [OF assms]
    by (simp add: and_then_def raise_def)
  assume "\<not> path_exists os out"
  with s show "trace w1 = trace w @ [Mkdir out]"
    using ensure_outdir_creates by blast
qed

theorem ProgramOptions_init_regress_conflict_witness:
  "ProgramOptions_init ex_os ex_setup_io ex_regress_args w0 =
     (Inl (regress_selection_error [''d'', ''pca'']),
      \<lparr>trace = [Mkdir ''/data/out''], ticks = 0\<rparr>)"
proof -
  have m: "arg_mode ex_regress_args = ''regress''"
    and f: "''d'' \<in> set (arg_feat_select ex_regress_args) \<or>
            ''auc'' \<in> set (arg_feat_select ex_regress_args)"
    by (simp_all add: ex_regress_args_def)
  have v: "validate_datapath ex_os (arg_datapath ex_regress_args) w0 = (Inr ''/data/in.csv'', w0)"
    by (simp add: validate_datapath_def resolved_path_def prog_defs ex_os_def ex_regress_args_def)
  have e: "ensure_outdir ex_os ''/data/in.csv'' (arg_outdir ex_regress_args) w0 =
             (Inr ''/data/out'', \<lparr>trace = [Mkdir ''/data/out''], ticks = 0\<rparr>)"
    by (simp add: ensure_outdir_def prog_defs ex_os_def ex_regress_args_def w0_def)
  have s: "ex_setup_io ''/data/out'' \<lparr>trace = [Mkdir ''/data/out''], ticks = 0\<rparr> =
             (Inr ProgramDirs_default, \<lparr>trace = [Mkdir ''/data/out''], ticks = 0\<rparr>)"
    by (simp add: ex_setup_io_def return_def)
  have ss: "sorted_set (arg_feat_select ex_regress_args) = [''d'', ''pca'']"
    unfolding ex_regress_args_def sorted_set_def by code_simp
  from ProgramOptions_init_regress_conflict [OF m f, where os = ex_os and w = w0
         and dp = "''/data/in.csv''" and out = "''/data/out''"
         and ?w1.0 = "\<lparr>trace = [Mkdir ''/data/out''], ticks = 0\<rparr>"
         and setup_io = ex_setup_io and dirs = ProgramDirs_default
         and ?w2.0 = "\<lparr>trace = [Mkdir ''/data/out''], ticks = 0\<rparr>"]
  show ?thesis using v e s ss by simp
qed

text \<open>
  The claim C8 as it is written fails: for the regression request with \<open>d\<close> among the
  selection methods and an output directory \<open>/data/out\<close> that does not exist yet, the
  constructor raises the error, and the directory has been created before.
\<close>

theorem ProgramOptions_init_creates_outdir_counterexample:
  "arg_mode ex_regress_args = ''regress'' \<and>
   ''d'' \<in> set (arg_feat_select ex_regress_args) \<and>
   fst (ProgramOptions_init ex_os ex_setup_io ex_regress_args w0) =
     Inl (regress_selection_error [''d'', ''pca'']) \<and>
   Mkdir ''/data/out'' \<in> set (trace (snd (ProgramOptions_init ex_os ex_setup_io ex_regress_args w0)))"
proof -
  have ss: "sorted_set [''pca'', ''d''] = [''d'', ''pca'']"
    unfolding sorted_set_def by code_simp
  show ?thesis
    by (simp add: ProgramOptions_init_def validate_datapath_def resolved_path_def
        ensure_outdir_def ex_setup_io_def prog_defs ex_os_def ex_regress_args_def w0_def ss)
qed

section \<open>Properties of run_analysis\<close>

lemma json_written_append: "json_written (xs @ ys) = json_written xs @ json_written ys"
  by (induction xs) (simp_all split: event.splits)

lemma csv_written_append: "csv_written (xs @ ys) = csv_written xs @ csv_written ys"
  by (induction xs) (simp_all split: event.splits)

lemma df_analyze_try_save_written:
  assumes "\<forall>df p. \<not> to_json_fails os df p \<and> \<not> to_csv_fails os df p"
  shows "\<exists>w'. df_analyze_try_save os df out file_info w = (Inr (), w') \<and>
        json_written (trace w') = json_written (trace w) @ [(pjoin out file_info @ ''.json'', df)] \<and>
        csv_written (trace w') = csv_written (trace w) @ [(pjoin out file_info @ ''.csv'', df)] \<and>
        ticks w' = ticks w"
  using assms
  by (simp add: df_analyze_try_save_cases Let_def json_written_append csv_written_append
      pjoin_def)

lemma timestamp_reads_clock:
  "timestamp os w = (Inr (stamp (ctime os (ticks w))), w\<lparr>ticks := Suc (ticks w)\<rparr>)"
  by (simp add: timestamp_def now_def and_then_def return_def)

lemma save_interim_result_written:
  assumes "outdir (options a) \<noteq> None"
    and ok: "\<forall>df p. \<not> to_json_fails os df p \<and> \<not> to_csv_fails os df p"
  shows "\<exists>w'. save_interim_result os a r w = (Inr (), w') \<and>
        json_written (trace w') = json_written (trace w) @
          with_extension ''.json'' (interim_artifacts os (ticks w) [a] [r]) \<and>
        csv_written (trace w') = csv_written (trace w) @
          with_extension ''.csv'' (interim_artifacts os (ticks w) [a] [r]) \<and>
        ticks w' = Suc (ticks w)"
proof -
  from assms obtain out where out: "outdir (options a) = Some out" by auto
  define ts where "ts = stamp (ctime os (ticks w))"
  define w1 where "w1 = w\<lparr>ticks := Suc (ticks w)\<rparr>"
  have t: "timestamp os w = (Inr ts, w1)"
    by (simp add: timestamp_reads_clock ts_def w1_def)
  from df_analyze_try_save_written [OF ok, of r out "interim_file_info a ts" w1]
  obtain w' where s: "df_analyze_try_save os r out (interim_file_info a ts) w1 = (Inr (), w')"
    and j: "json_written (trace w') =
              json_written (trace w1) @ [(pjoin out (interim_file_info a ts) @ ''.json'', r)]"
    and c: "csv_written (trace w') =
              csv_written (trace w1) @ [(pjoin out (interim_file_info a ts) @ ''.csv'', r)]"
    and k: "ticks w' = ticks w1"
    by blast
  have "save_interim_result os a r w = (Inr (), w')"
    using out t s by (simp add: save_interim_result_def and_then_def)
  moreover have "interim_artifacts os (ticks w) [a] [r] = [(pjoin out (interim_file_info a ts), r)]"
    using out by (simp add: outdir_of_def ts_def)
  ultimately show ?thesis using j c k by (simp add: w1_def with_extension_def)
qed

lemma interim_artifacts_Cons:
  "interim_artifacts os t (a # args) (r # rs) =
     interim_artifacts os t [a] [r] @ interim_artifacts os (Suc t) args rs"
  by simp

lemma with_extension_append:
  "with_extension ext (xs @ ys) = with_extension ext xs @ with_extension ext ys"
  by (simp add: with_extension_def)

lemma length_interim_artifacts:
  "length rs = length args \<Longrightarrow> length (interim_artifacts os t args rs) = length args"
  by (induction os t args rs rule: interim_artifacts.induct) simp_all

lemma run_loop_completes:
  assumes "\<forall>a \<in> set args. outdir (options a) \<noteq> None"
    and "map analysis args = map Inr rs"
    and ok: "\<forall>df p. \<not> to_json_fails os df p \<and> \<not> to_csv_fails os df p"
  shows "\<exists>w'. run_loop os analysis args acc w = (Inr (acc @ rs), w') \<and>
        json_written (trace w') = json_written (trace w) @
          with_extension ''.json'' (interim_artifacts os (ticks w) args rs) \<and>
        csv_written (trace w') = csv_written (trace w) @
          with_extension ''.csv'' (interim_artifacts os (ticks w) args rs) \<and>
        ticks w' = ticks w + length args"
  using assms(1,2)
proof (induction args arbitrary: rs acc w)
  case Nil
  then show ?case by (simp add: return_def with_extension_def)
next
  case (Cons a args)
  from Cons.prems(2) obtain r rs' where rs: "rs = r # rs'" and r: "analysis a = Inr r"
    and rest: "map analysis args = map Inr rs'"
    by (cases rs) auto
  from Cons.prems(1) have o: "outdir (options a) \<noteq> None"
    and os': "\<forall>a \<in> set args. outdir (options a) \<noteq> None" by simp_all
  from save_interim_result_written [OF o ok, of r w] obtain w1 where
    s: "save_interim_result os a r w = (Inr (), w1)"
    and j: "json_written (trace w1) = json_written (trace w) @
              with_extension ''.json'' (interim_artifacts os (ticks w) [a] [r])"
    and c: "csv_written (trace w1) = csv_written (trace w) @
              with_extension ''.csv'' (interim_artifacts os (ticks w) [a] [r])"
    and k: "ticks w1 = Suc (ticks w)" by blast
  from Cons.IH [OF os' rest, of "acc @ [r]" w1] obtain w' where
    l: "run_loop os analysis args (acc @ [r]) w1 = (Inr ((acc @ [r]) @ rs'), w')"
    and j': "json_written (trace w') = json_written (trace w1) @
              with_extension ''.json'' (interim_artifacts os (ticks w1) args rs')"
    and c': "csv_written (trace w') = csv_written (trace w1) @
              with_extension ''.csv'' (interim_artifacts os (ticks w1) args rs')"
    and k': "ticks w' = ticks w1 + length args" by blast
  have run: "run_loop os analysis (a # args) acc w = (Inr (acc @ rs), w')"
    using r s l rs by (simp add: and_then_def lift_def)
  have split: "interim_artifacts os (ticks w) (a # args) rs =
      interim_artifacts os (ticks w) [a] [r] @ interim_artifacts os (ticks w1) args rs'"
    unfolding rs k by (rule interim_artifacts_Cons)
  show ?case
    unfolding split with_extension_append
    using run j c k j' c' k' by simp
qed

lemma run_loop_stops:
  assumes "\<forall>a \<in> set args. outdir (options a) \<noteq> None"
    and "k < length args"
    and "map analysis (take k args) = map Inr rs"
    and "analysis (args ! k) = Inl e"
    and ok: "\<forall>df p. \<not> to_json_fails os df p \<and> \<not> to_csv_fails os df p"
  shows "\<exists>w'. run_loop os analysis args acc w = (Inl e, w') \<and>
        json_written (trace w') = json_written (trace w) @
          with_extension ''.json'' (interim_artifacts os (ticks w) (take k args) rs) \<and>
        csv_written (trace w') = csv_written (trace w) @
          with_extension ''.csv'' (interim_artifacts os (ticks w) (take k args) rs)"
  using assms(1-4)
proof (induction args arbitrary: k rs acc w)
  case Nil
  then show ?case by simp
next
  case (Cons a args)
  show ?case
  proof (cases k)
    case 0
    with Cons.prems show ?thesis by (simp add: and_then_def lift_def with_extension_def)
  next
    case (Suc k')
    from Cons.prems(3) Suc obtain r rs' where rs: "rs = r # rs'" and r: "analysis a = Inr r"
      and rest: "map analysis (take k' args) = map Inr rs'"
      by (cases rs) auto
    from Cons.prems(1) have o: "outdir (options a) \<noteq> None"
      and os': "\<forall>a \<in> set args. outdir (options a) \<noteq> None" by simp_all
    from Cons.prems(2,4) Suc have k': "k' < length args" and e: "analysis (args ! k') = Inl e"
      by simp_all
    from save_interim_result_written [OF o ok, of r w] obtain w1 where
      s: "save_interim_result os a r w = (Inr (), w1)"
      and j: "json_written (trace w1) = json_written (trace w) @
                with_extension ''.json'' (interim_artifacts os (ticks w) [a] [r])"
      and c: "csv_written (trace w1) = csv_written (trace w) @
                with_extension ''.csv'' (interim_artifacts os (ticks w) [a] [r])"
      and t: "ticks w1 = Suc (ticks w)" by blast
    from Cons.IH [OF os' k' rest e, of "acc @ [r]" w1] obtain w' where
      l: "run_loop os analysis args (acc @ [r]) w1 = (Inl e, w')"
      and j': "json_written (trace w') = json_written (trace w1) @
                with_extension ''.json'' (interim_artifacts os (ticks w1) (take k' args) rs')"
      and c': "csv_written (trace w') = csv_written (trace w1) @
                with_extension ''.csv'' (interim_artifacts os (ticks w1) (take k' args) rs')"
      by blast
    have run: "run_loop os analysis (a # args) acc w = (Inl e, w')"
      using r s l by (simp add: and_then_def lift_def)
    have split: "interim_artifacts os (ticks w) (take k (a # args)) rs =
        interim_artifacts os (ticks w) [a] [r] @ interim_artifacts os (ticks w1) (take k' args) rs'"
      unfolding rs t Suc by simp
    show ?thesis
      unfolding split with_extension_append
      using run j c j' c' by simp
  qed
qed

lemma ensure_results_dir_written:
  assumes "path_exists os d \<or> \<not> mkdir_fails os d"
  shows "\<exists>w'. (if \<not> path_exists os d then mkdir os d else return ()) w = (Inr (), w') \<and>
        json_written (trace w') = json_written (trace w) \<and>
        csv_written (trace w') = csv_written (trace w) \<and> ticks w' = ticks w"
  using assms by (auto simp: prog_defs json_written_append csv_written_append)

lemma sort_values_columns:
  "sort_values quicksort c df = Inr df' \<Longrightarrow> columns df' = columns df"
  by (auto simp: sort_values_def split: list.splits)

lemma render_print_written:
  "\<exists>r w'. and_then (render os df fmt) print w = (r, w') \<and> (r = Inr () \<or> r = Inl ImportError) \<and>
        json_written (trace w') = json_written (trace w) \<and>
        csv_written (trace w') = csv_written (trace w)"
  by (simp add: prog_defs json_written_append csv_written_append split: option.splits)

lemma print_sorted_after_sort_df:
  assumes "sort_df quicksort combined = Inr df"
  shows "\<exists>r w'. print_sorted os quicksort df w = (r, w') \<and> (r = Inr () \<or> r = Inl ImportError) \<and>
        json_written (trace w') = json_written (trace w) \<and>
        csv_written (trace w') = csv_written (trace w)"
proof (cases "find_sort_col (map lower (columns combined))")
  case None
  with assms have "df = combined" by (simp add: sort_df_def)
  with None show ?thesis
    using render_print_written [of os df "''0.3f''" w] by (simp add: print_sorted_def)
next
  case (Some c)
  with assms have s: "sort_values quicksort c combined = Inr df" by (simp add: sort_df_def)
  then have cols: "columns df = columns combined" by (rule sort_values_columns)
  from s have "\<exists>df''. sort_values quicksort c df = Inr df''"
    by (auto simp: sort_values_def split: list.splits)
  then obtain df'' where "sort_values quicksort c df = Inr df''" by blast
  with Some cols show ?thesis
    using render_print_written [of os df'' "''0.3f''" w]
    by (simp add: print_sorted_def and_then_def lift_def)
qed

lemma run_analysis_unfold:
  assumes "outdir (options first) = Some d"
    and "(if \<not> path_exists os d then mkdir os d else return ()) w = (Inr (), w1)"
  shows "run_analysis os quicksort analysis (first # rest) es is_stepup w =
     and_then (run_loop os analysis (first # rest) []) (\<lambda>collected.
     and_then (lift (pd_concat os collected)) (\<lambda>combined.
     and_then (lift (sort_df quicksort combined)) (\<lambda>df.
     and_then (timestamp os) (\<lambda>ts.
     and_then (df_analyze_try_save os df d (final_file_info es is_stepup ts)) (\<lambda>_.
     and_then (print_sorted os quicksort df) (\<lambda>_.
     return df)))))) w1"
  unfolding run_analysis_def
  apply (subst and_then_def)
  apply (simp only: list.case return_def prod.case sum.case assms(1))
  apply (subst and_then_def)
  apply (simp only: option.case return_def prod.case sum.case)
  apply (subst and_then_def)
  apply (simp only: assms(2) prod.case sum.case)
  done

lemma run_analysis_finish:
  assumes "pd_concat os rs = Inr combined" and "sort_df quicksort combined = Inr df"
    and ok: "\<forall>df p. \<not> to_json_fails os df p \<and> \<not> to_csv_fails os df p"
  shows "\<exists>r w'.
     and_then (lift (pd_concat os rs)) (\<lambda>combined.
     and_then (lift (sort_df quicksort combined)) (\<lambda>df.
     and_then (timestamp os) (\<lambda>ts.
     and_then (df_analyze_try_save os df d (final_file_info es is_stepup ts)) (\<lambda>_.
     and_then (print_sorted os quicksort df) (\<lambda>_.
     return df))))) w2 = (r, w') \<and> (r = Inr df \<or> r = Inl ImportError) \<and>
     json_written (trace w') = json_written (trace w2) @
       [(pjoin d (final_file_info es is_stepup (stamp (ctime os (ticks w2)))) @ ''.json'', df)] \<and>
     csv_written (trace w') = csv_written (trace w2) @
       [(pjoin d (final_file_info es is_stepup (stamp (ctime os (ticks w2)))) @ ''.csv'', df)]"
proof -
  define ts where "ts = stamp (ctime os (ticks w2))"
  define w3 where "w3 = w2\<lparr>ticks := Suc (ticks w2)\<rparr>"
  have t: "timestamp os w2 = (Inr ts, w3)"
    by (simp add: timestamp_reads_clock ts_def w3_def)
  have tr: "trace w3 = trace w2" by (simp add: w3_def)
  from df_analyze_try_save_written [OF ok, of df d "final_file_info es is_stepup ts" w3]
  obtain w4 where s: "df_analyze_try_save os df d (final_file_info es is_stepup ts) w3 = (Inr (), w4)"
    and j4: "json_written (trace w4) =
               json_written (trace w3) @ [(pjoin d (final_file_info es is_stepup ts) @ ''.json'', df)]"
    and c4: "csv_written (trace w4) =
               csv_written (trace w3) @ [(pjoin d (final_file_info es is_stepup ts) @ ''.csv'', df)]"
    by blast
  from print_sorted_after_sort_df [OF assms(2), of os w4]
  obtain r5 w5 where p: "print_sorted os quicksort df w4 = (r5, w5)"
    and r5: "r5 = Inr () \<or> r5 = Inl ImportError"
    and j5: "json_written (trace w5) = json_written (trace w4)"
    and c5: "csv_written (trace w5) = csv_written (trace w4)" by blast
  from r5 assms(1,2) t s p have "
     and_then (lift (pd_concat os rs)) (\<lambda>combined.
     and_then (lift (sort_df quicksort combined)) (\<lambda>df.
     and_then (timestamp os) (\<lambda>ts.
     and_then (df_analyze_try_save os df d (final_file_info es is_stepup ts)) (\<lambda>_.
     and_then (print_sorted os quicksort df) (\<lambda>_.
     return df))))) w2 = (if r5 = Inr () then Inr df else Inl ImportError, w5)"
    by (auto simp: and_then_def lift_def return_def)
  with r5 tr j4 c4 j5 c5 show ?thesis unfolding ts_def by auto
qed

lemma distinct_files_card:
  "distinct (map fst files) \<Longrightarrow> card (fst ` set files) = length files"
  using distinct_card [of "map fst files"] by simp

text \<open>
  C9, as the code has it.  \<open>run_analysis\<close> takes the results directory from the first
  grid point (made if it is missing; every grid point's options have an output
  directory, as \<open>ProgramOptions.__init__\<close> always sets one).  Each grid point's result is
  handed to \<open>save_interim_result\<close> before the loop advances, and the sorted aggregate is
  saved after the loop.  Where every write succeeds: when the analysis routine returns
  for the first \<open>k\<close> grid points and raises in the next one (an exception or the
  operator's interrupt), \<open>run_analysis\<close> raises the same, and the files written during
  the run are exactly the JSON and the CSV file of the \<open>k\<close> interim artifacts, named
  \<open>results__{estimator}[_step-up]__{timestamp}\<close> and holding the \<open>k\<close> results in the order
  of the grid points: nothing else, so no final file.  They are \<open>k\<close> different files
  when these names differ from each other.  When the routine returns for all grid
  points (and the results can be concatenated and sorted), the interim files are
  written first and the file of the sorted aggregate once, after them.
\<close>

theorem run_analysis_interim_before_final:
  assumes "loop_args = first # rest"
    and "outdir (options first) = Some results_dir"
    and "path_exists os results_dir \<or> \<not> mkdir_fails os results_dir"
    and "\<forall>a \<in> set rest. outdir (options a) \<noteq> None"
    and "\<forall>df p. \<not> to_json_fails os df p \<and> \<not> to_csv_fails os df p"
  shows
    "(k < length loop_args \<and> map analysis (take k loop_args) = map Inr rs \<and>
      analysis (loop_args ! k) = Inl e
        \<longrightarrow> fst (run_analysis os quicksort analysis loop_args es is_stepup w) = Inl e \<and>
            json_written (trace (snd (run_analysis os quicksort analysis loop_args es is_stepup w)))
              = json_written (trace w) @
                with_extension ''.json'' (interim_artifacts os (ticks w) (take k loop_args) rs) \<and>
            csv_written (trace (snd (run_analysis os quicksort analysis loop_args es is_stepup w)))
              = csv_written (trace w) @
                with_extension ''.csv'' (interim_artifacts os (ticks w) (take k loop_args) rs) \<and>
            length (interim_artifacts os (ticks w) (take k loop_args) rs) = k \<and>
            (distinct (map fst (interim_artifacts os (ticks w) (take k loop_args) rs))
               \<longrightarrow> card (fst ` set (interim_artifacts os (ticks w) (take k loop_args) rs)) = k)) \<and>
     (map analysis loop_args = map Inr rs \<and> pd_concat os rs = Inr combined \<and>
      sort_df quicksort combined = Inr df
        \<longrightarrow> (fst (run_analysis os quicksort analysis loop_args es is_stepup w) = Inr df \<or>
             fst (run_analysis os quicksort analysis loop_args es is_stepup w) = Inl ImportError) \<and>
            json_written (trace (snd (run_analysis os quicksort analysis loop_args es is_stepup w)))
              = json_written (trace w) @
                with_extension ''.json'' (interim_artifacts os (ticks w) loop_args rs) @
                [(pjoin results_dir
                    (final_file_info es is_stepup
                       (stamp (ctime os (ticks w + length loop_args)))) @ ''.json'', df)] \<and>
            csv_written (trace (snd (run_analysis os quicksort analysis loop_args es is_stepup w)))
              = csv_written (trace w) @
                with_extension ''.csv'' (interim_artifacts os (ticks w) loop_args rs) @
                [(pjoin results_dir
                    (final_file_info es is_stepup
                       (stamp (ctime os (ticks w + length loop_args)))) @ ''.csv'', df)] \<and>
            length (interim_artifacts os (ticks w) loop_args rs) = length loop_args)"
proof -
  note ok = assms(5)
  have all: "\<forall>a \<in> set loop_args. outdir (options a) \<noteq> None"
    using assms(1,2,4) by simp
  obtain w1 where m: "(if \<not> path_exists os results_dir then mkdir os results_dir else return ()) w
                        = (Inr (), w1)"
    and j1: "json_written (trace w1) = json_written (trace w)"
    and c1: "csv_written (trace w1) = csv_written (trace w)"
    and t1: "ticks w1 = ticks w"
    using ensure_results_dir_written [OF assms(3), of w] by blast
  note u = run_analysis_unfold [OF assms(2) m, of quicksort analysis rest es is_stepup,
      folded assms(1)]
  have stop: "fst (run_analysis os quicksort analysis loop_args es is_stepup w) = Inl e \<and>
            json_written (trace (snd (run_analysis os quicksort analysis loop_args es is_stepup w)))
              = json_written (trace w) @
                with_extension ''.json'' (interim_artifacts os (ticks w) (take k loop_args) rs) \<and>
            csv_written (trace (snd (run_analysis os quicksort analysis loop_args es is_stepup w)))
              = csv_written (trace w) @
                with_extension ''.csv'' (interim_artifacts os (ticks w) (take k loop_args) rs) \<and>
            length (interim_artifacts os (ticks w) (take k loop_args) rs) = k \<and>
            (distinct (map fst (interim_artifacts os (ticks w) (take k loop_args) rs))
               \<longrightarrow> card (fst ` set (interim_artifacts os (ticks w) (take k loop_args) rs)) = k)"
    if h: "k < length loop_args \<and> map analysis (take k loop_args) = map Inr rs \<and>
      analysis (loop_args ! k) = Inl e"
  proof -
    from h have k: "k < length loop_args" and t: "map analysis (take k loop_args) = map Inr rs"
      and e: "analysis (loop_args ! k) = Inl e" by simp_all
    from run_loop_stops [OF all k t e ok, of "[]" w1] obtain w2 where
      l: "run_loop os analysis loop_args [] w1 = (Inl e, w2)"
      and j2: "json_written (trace w2) = json_written (trace w1) @
                 with_extension ''.json'' (interim_artifacts os (ticks w1) (take k loop_args) rs)"
      and c2: "csv_written (trace w2) = csv_written (trace w1) @
                 with_extension ''.csv'' (interim_artifacts os (ticks w1) (take k loop_args) rs)"
      by blast
    have r: "run_analysis os quicksort analysis loop_args es is_stepup w = (Inl e, w2)"
      unfolding u by (subst and_then_def) (simp only: l prod.case sum.case)
    from t have "length (map analysis (take k loop_args)) =
                 length (map Inr rs :: (error + 'a DataFrame) list)"
      by simp
    with k have "length rs = length (take k loop_args)" by simp
    then have len: "length (interim_artifacts os (ticks w) (take k loop_args) rs) = k"
      using k by (simp add: length_interim_artifacts)
    have "card (fst ` set (interim_artifacts os (ticks w) (take k loop_args) rs)) = k"
      if "distinct (map fst (interim_artifacts os (ticks w) (take k loop_args) rs))"
      using distinct_files_card [OF that] len by simp
    with r j1 c1 t1 j2 c2 len show ?thesis by simp
  qed
  have complete:
     "(fst (run_analysis os quicksort analysis loop_args es is_stepup w) = Inr df \<or>
             fst (run_analysis os quicksort analysis loop_args es is_stepup w) = Inl ImportError) \<and>
            json_written (trace (snd (run_analysis os quicksort analysis loop_args es is_stepup w)))
              = json_written (trace w) @
                with_extension ''.json'' (interim_artifacts os (ticks w) loop_args rs) @
                [(pjoin results_dir
                    (final_file_info es is_stepup
                       (stamp (ctime os (ticks w + length loop_args)))) @ ''.json'', df)] \<and>
            csv_written (trace (snd (run_analysis os quicksort analysis loop_args es is_stepup w)))
              = csv_written (trace w) @
                with_extension ''.csv'' (interim_artifacts os (ticks w) loop_args rs) @
                [(pjoin results_dir
                    (final_file_info es is_stepup
                       (stamp (ctime os (ticks w + length loop_args)))) @ ''.csv'', df)] \<and>
            length (interim_artifacts os (ticks w) loop_args rs) = length loop_args"
    if h: "map analysis loop_args = map Inr rs \<and> pd_concat os rs = Inr combined \<and>
      sort_df quicksort combined = Inr df"
  proof -
    from h have t: "map analysis loop_args = map Inr rs" and p: "pd_concat os rs = Inr combined"
      and s: "sort_df quicksort combined = Inr df" by simp_all
    from run_loop_completes [OF all t ok, of "[]" w1] obtain w2 where
      l: "run_loop os analysis loop_args [] w1 = (Inr rs, w2)"
      and j2: "json_written (trace w2) = json_written (trace w1) @
                 with_extension ''.json'' (interim_artifacts os (ticks w1) loop_args rs)"
      and c2: "csv_written (trace w2) = csv_written (trace w1) @
                 with_extension ''.csv'' (interim_artifacts os (ticks w1) loop_args rs)"
      and t2: "ticks w2 = ticks w1 + length loop_args" by auto
    from run_analysis_finish [OF p s ok, of results_dir es is_stepup w2] obtain r w' where
      f: "and_then (lift (pd_concat os rs)) (\<lambda>combined.
           and_then (lift (sort_df quicksort combined)) (\<lambda>df.
           and_then (timestamp os) (\<lambda>ts.
           and_then (df_analyze_try_save os df results_dir (final_file_info es is_stepup ts)) (\<lambda>_.
           and_then (print_sorted os quicksort df) (\<lambda>_.
           return df))))) w2 = (r, w')"
      and rr: "r = Inr df \<or> r = Inl ImportError"
      and j3: "json_written (trace w') = json_written (trace w2) @
         [(pjoin results_dir (final_file_info es is_stepup (stamp (ctime os (ticks w2)))) @ ''.json'', df)]"
      and c3: "csv_written (trace w') = csv_written (trace w2) @
         [(pjoin results_dir (final_file_info es is_stepup (stamp (ctime os (ticks w2)))) @ ''.csv'', df)]"
      by blast
    have r: "run_analysis os quicksort analysis loop_args es is_stepup w = (r, w')"
      unfolding u by (subst and_then_def) (simp only: l prod.case sum.case f)
    from t have "length (map analysis loop_args) =
                 length (map Inr rs :: (error + 'a DataFrame) list)"
      by simp
    then have "length rs = length loop_args" by simp
    then have len: "length (interim_artifacts os (ticks w) loop_args rs) = length loop_args"
      by (simp add: length_interim_artifacts)
    from r rr j1 c1 t1 j2 c2 t2 j3 c3 len show ?thesis by auto
  qed
  from stop complete show ?thesis by blast
qed
section \<open>What the constructor guarantees\<close>

text \<open>
  An object built by \<open>ProgramOptions.__init__\<close> has an output directory, and the
  constructor does not see the order or the repetitions in which the multi-valued
  options were given.
\<close>

lemma and_then_Inr:
  "and_then m f w = (Inr y, w') \<Longrightarrow> \<exists>x w1. m w = (Inr x, w1) \<and> f x w1 = (Inr y, w')"
  by (auto simp: and_then_def split: prod.splits sum.splits)

lemma ProgramOptions_init_sets_outdir:
  assumes "ProgramOptions_init os setup_io a w = (Inr opts, w')"
  shows "\<exists>out. outdir opts = Some out"
  using assms unfolding ProgramOptions_init_def Let_def
  apply -
  apply (drule and_then_Inr, clarify)
  apply (drule and_then_Inr, clarify)
  apply (drule and_then_Inr, clarify)
  apply (drule and_then_Inr, clarify)
  apply (drule and_then_Inr, clarify)
  apply (simp only: return_def prod.inject sum.inject)
  apply (erule conjE)
  apply (drule arg_cong [where f = outdir])
  apply (simp only: ProgramOptions.simps)
  apply (rule exI)
  apply (erule sym)
  done

lemma ProgramOptions_init_order_independent:
  assumes "set (arg_feat_clean b) = set (arg_feat_clean a)"
    and "set (arg_feat_select b) = set (arg_feat_select a)"
    and "set (arg_classifiers b) = set (arg_classifiers a)"
    and "set (arg_regressors b) = set (arg_regressors a)"
    and "arg_datapath b = arg_datapath a" and "arg_target b = arg_target a"
    and "arg_drop_nan b = arg_drop_nan a" and "arg_n_feat b = arg_n_feat a"
    and "arg_mode b = arg_mode a" and "arg_htune b = arg_htune a"
    and "arg_htune_val b = arg_htune_val a" and "arg_htune_val_size b = arg_htune_val_size a"
    and "arg_htune_trials b = arg_htune_trials a" and "arg_test_val b = arg_test_val a"
    and "arg_test_val_sizes b = arg_test_val_sizes a" and "arg_outdir b = arg_outdir a"
    and "arg_is_spreadsheet b = arg_is_spreadsheet a" and "arg_verbosity b = arg_verbosity a"
  shows "ProgramOptions_init os setup_io b = ProgramOptions_init os setup_io a"
proof -
  have n: "sorted_set (arg_feat_clean b) = sorted_set (arg_feat_clean a)"
    "sorted_set (arg_feat_select b) = sorted_set (arg_feat_select a)"
    "sorted_set (arg_classifiers b) = sorted_set (arg_classifiers a)"
    "sorted_set (arg_regressors b) = sorted_set (arg_regressors a)"
    by (rule sorted_set_order_independent, rule assms)+
  show ?thesis
    unfolding ProgramOptions_init_def by (simp only: n assms(5-18))
qed


end
